theory Spec2Isabelle
  imports Main "HOL-Library.Word"
begin

section \<open>Function inputs and outputs\<close>

text \<open>
  A \<^verbatim>\<open>FunctionIO\<close> object is seen through what the code asks of it: its raw storage
  (\<^verbatim>\<open>dataRaw()\<close>, a byte array), its \<^verbatim>\<open>IOType\<close>, and the result of each
  \<^verbatim>\<open>dynamic_cast\<close> the functions perform (to \<^verbatim>\<open>IO_double\<close>, to
  \<^verbatim>\<open>FEMCoordinate\<close>, to \<^verbatim>\<open>MeshCoordinate\<close>). The class declarations
  (FunctionIO.hpp, FEMCoordinate.hpp, MeshCoordinate.hpp) are not among the sources, so
  no class hierarchy is fixed: an object may answer to several casts. A double is its
  eight bytes of storage; pointers to meshes are addresses.
\<close>

type_synonym byte = "8 word"
type_synonym address = nat

datatype IOType = Scalar | Vector | Tensor | OtherIOType

record FEMCoordinate =
  fem_mesh :: address
  fem_index :: nat
  fem_localCoord :: "byte list"

record MeshCoordinate =
  mc_object :: address
  mc_index :: nat

record FunctionIO =
  iotype :: IOType
  dataRaw :: "byte list"
  is_IO_double :: bool
  as_FEMCoordinate :: "FEMCoordinate option"
  as_MeshCoordinate :: "MeshCoordinate option"

definition sizeof_double :: nat where
  "sizeof_double = 8"

text \<open>\<^verbatim>\<open>size()\<close> of a double-valued object: the number of doubles in its storage.\<close>

definition size_io :: "FunctionIO \<Rightarrow> nat" where
  "size_io io = length (dataRaw io) div sizeof_double"

text \<open>\<^verbatim>\<open>at(i)\<close>: the bytes of the i-th double.\<close>

definition at_io :: "FunctionIO \<Rightarrow> nat \<Rightarrow> byte list" where
  "at_io io i = take sizeof_double (drop (sizeof_double * i) (dataRaw io))"

text \<open>An \<^verbatim>\<open>IO_double\<close> object of the given \<^verbatim>\<open>IOType\<close> and content.\<close>

definition new_IO_double :: "IOType \<Rightarrow> byte list \<Rightarrow> FunctionIO" where
  "new_IO_double t raw =
     \<lparr>iotype = t, dataRaw = raw, is_IO_double = True,
      as_FEMCoordinate = None, as_MeshCoordinate = None\<rparr>"

text \<open>
  Exceptions are values. Three more values are not exceptions.
  \<open>undefined_behaviour\<close> marks a read outside an array, a copy whose end lies before
  its start, and a \<^verbatim>\<open>debug_dynamic_cast\<close> to a class the object does not have.
  \<open>never_returns\<close> marks a loop that has no end. \<open>SIGFPE\<close> marks a floating-point
  exception raised while its trap is enabled: the signal is delivered, and the call
  neither returns nor throws.
\<close>

datatype error =
    invalid_argument string
  | runtime_error string
  | range_error string
  | undefined_behaviour
  | never_returns
  | SIGFPE

section \<open>The floating-point environment and the machine state\<close>

text \<open>
  The environment of \<^verbatim>\<open><cfenv>\<close>: the exception flags, the rounding direction, and
  the exceptions whose trap is enabled. In the default environment no trap is enabled
  (non-stop mode).
\<close>

datatype fexcept = FE_DIVBYZERO | FE_INEXACT | FE_INVALID | FE_OVERFLOW | FE_UNDERFLOW

datatype rounding_mode = FE_DOWNWARD | FE_TONEAREST | FE_TOWARDZERO | FE_UPWARD

record fenv =
  flags :: "fexcept set"
  rounding :: rounding_mode
  traps :: "fexcept set"

text \<open>
  The state in which functions run: the floating-point environment of the thread, and
  the arrays that closures allocate once and keep from call to call, by address.
  \<open>next_buffer\<close> is the address that the next allocation returns.
\<close>

record machine = fenv +
  buffers :: "address \<Rightarrow> byte list"
  next_buffer :: address

text \<open>The environment as a \<^verbatim>\<open>std::fenv_t\<close> holds it.\<close>

definition current_fenv :: "machine \<Rightarrow> fenv" where
  "current_fenv s = \<lparr>flags = flags s, rounding = rounding s, traps = traps s\<rparr>"

text \<open>
  \<^verbatim>\<open>feholdexcept(&envp)\<close> saves the environment, clears the flags and installs
  non-stop mode: no trap stays enabled. The result is the status, the saved environment
  and the new state. On a machine that has the exception flags the call succeeds and
  the status is 0; the source tests it all the same, and the test is kept.
\<close>

definition feholdexcept :: "machine \<Rightarrow> int \<times> fenv \<times> machine" where
  "feholdexcept s = (0, current_fenv s, s\<lparr>flags := {}, traps := {}\<rparr>)"

text \<open>
  \<^verbatim>\<open>feupdateenv(&envp)\<close> keeps the exceptions raised so far, installs the saved
  environment and then raises the kept exceptions in it. When the saved environment
  enables the trap of one of them, raising it delivers \<^verbatim>\<open>SIGFPE\<close> and the call does
  not return. Otherwise the status is 0.
\<close>

definition feupdateenv :: "fenv \<Rightarrow> machine \<Rightarrow> (error + int) \<times> machine" where
  "feupdateenv envp s =
     (let installed =
            s\<lparr>flags := flags envp \<union> flags s, rounding := rounding envp, traps := traps envp\<rparr>
      in if flags s \<inter> traps envp \<noteq> {} then (Inl SIGFPE, installed)
         else (Inr 0, installed))"

definition fetestexcept :: "fexcept set \<Rightarrow> machine \<Rightarrow> fexcept set" where
  "fetestexcept excepts s = flags s \<inter> excepts"

section \<open>Functions and their closures\<close>

text \<open>
  \<^verbatim>\<open>Function::func\<close> is a closure from an input to an output. It may throw, and it
  runs in the machine state, which it may change.
  \<^verbatim>\<open>Function::getFunction\<close> builds the closure from a sample input; it may throw
  too, and \<^verbatim>\<open>At::getFunction\<close> evaluates a closure while it builds its own.
\<close>

type_synonym func = "machine \<Rightarrow> FunctionIO \<Rightarrow> (error + FunctionIO) \<times> machine"

type_synonym getFunction = "machine \<Rightarrow> FunctionIO \<Rightarrow> (error + func) \<times> machine"



section \<open>Printing numbers\<close>

text \<open>\<^verbatim>\<open>operator<<\<close> for an unsigned integer: its decimal digits.\<close>

definition digit_char :: "nat \<Rightarrow> char" where
  "digit_char d = ''0123456789'' ! d"

function string_of_nat :: "nat \<Rightarrow> string" where
  "string_of_nat n =
     (if n < 10 then [digit_char n] else string_of_nat (n div 10) @ [digit_char (n mod 10)])"
  by pat_completeness auto
termination
  by (relation "measure id") auto

declare string_of_nat.simps [simp del]

section \<open>SafeMaths\<close>

definition unknown_error :: string where
  "unknown_error = ''Unknown error. Please contact developers.''"

definition fpe_message :: "machine \<Rightarrow> string" where
  "fpe_message s =
     ''Floating point exception(s) encountered while evaluating SafeMaths argument function:''
       @ [CHR 0x0A]
     @ (if fetestexcept {FE_DIVBYZERO} s \<noteq> {} then ''   Divide by zero'' else [])
     @ (if fetestexcept {FE_INVALID} s \<noteq> {} then ''   Invalid domain'' else [])
     @ (if fetestexcept {FE_OVERFLOW} s \<noteq> {} then ''   Value overflow'' else [])
     @ (if fetestexcept {FE_UNDERFLOW} s \<noteq> {} then ''   Value underflow'' else [])"

text \<open>
  The lambda of \<^verbatim>\<open>SafeMaths::getFunction\<close>. When \<^verbatim>\<open>_func(input)\<close> throws, the
  exception leaves the lambda at once: no \<^verbatim>\<open>feupdateenv\<close> is reached.
\<close>

definition SafeMaths_closure :: "string \<Rightarrow> func \<Rightarrow> func" where
  "SafeMaths_closure pyfnerrorheader func' s input =
     (case feholdexcept s of (notsuccess, envp, s1) \<Rightarrow>
        if notsuccess \<noteq> 0
        then (Inl (runtime_error (pyfnerrorheader @ unknown_error)), s1)
        else
          (case func' s1 input of
             (Inl e, s2) \<Rightarrow> (Inl e, s2)
           | (Inr output, s2) \<Rightarrow>
               if fetestexcept {FE_DIVBYZERO, FE_INVALID, FE_OVERFLOW, FE_UNDERFLOW} s2 \<noteq> {}
               then
                 (case feupdateenv envp s2 of
                    (Inl signal, s3) \<Rightarrow> (Inl signal, s3)
                  | (Inr notsuccess2, s3) \<Rightarrow>
                      if notsuccess2 \<noteq> 0
                      then (Inl (runtime_error (pyfnerrorheader @ unknown_error)), s3)
                      else (Inl (runtime_error (pyfnerrorheader @ fpe_message s2)), s3))
               else
                 (case feupdateenv envp s2 of
                    (Inl signal, s3) \<Rightarrow> (Inl signal, s3)
                  | (Inr notsuccess2, s3) \<Rightarrow>
                      if notsuccess2 \<noteq> 0
                      then (Inl (runtime_error (pyfnerrorheader @ unknown_error)), s3)
                      else (Inr output, s3))))"

definition SafeMaths_getFunction :: "string \<Rightarrow> getFunction \<Rightarrow> getFunction" where
  "SafeMaths_getFunction pyfnerrorheader fn s sample_input =
     (case fn s sample_input of
        (Inl e, s1) \<Rightarrow> (Inl e, s1)
      | (Inr func', s1) \<Rightarrow> (Inr (SafeMaths_closure pyfnerrorheader func'), s1))"

section \<open>At: extracting one component\<close>

text \<open>The lambda that \<^verbatim>\<open>At::getFunction\<close> uses when the node has no argument function.\<close>

definition identity_func :: func where
  "identity_func s input = (Inr input, s)"

text \<open>
  \<^verbatim>\<open>std::copy(src + start, src + finish, dest)\<close> on bytes. It is defined when the
  source range is a range of the source array and fits the destination.
\<close>

definition std_copy :: "byte list \<Rightarrow> nat \<Rightarrow> nat \<Rightarrow> byte list \<Rightarrow> byte list option" where
  "std_copy src start finish dest =
     (if start \<le> finish \<and> finish \<le> length src \<and> finish - start \<le> length dest
      then Some (take (finish - start) (drop start src) @ drop (finish - start) dest)
      else None)"

text \<open>
  The lambda of \<^verbatim>\<open>At::getFunction\<close>. Its output buffer holds one double. The
  offsets that \<^verbatim>\<open>At::getFunction\<close> computes are eight bytes apart whenever the
  first is not above the second (lemma \<open>At_offsets_apart\<close>), so a defined copy fills
  the whole buffer and what the buffer held before does not show.
\<close>

definition At_closure :: "func \<Rightarrow> nat \<Rightarrow> nat \<Rightarrow> func" where
  "At_closure func' startOffset endOffset s input =
     (case func' s input of
        (Inl e, s1) \<Rightarrow> (Inl e, s1)
      | (Inr io, s1) \<Rightarrow>
          (case std_copy (dataRaw io) startOffset endOffset (replicate sizeof_double 0) of
             None \<Rightarrow> (Inl undefined_behaviour, s1)
           | Some raw \<Rightarrow> (Inr (new_IO_double Scalar raw), s1)))"

definition not_double_message :: string where
  "not_double_message = ''Argument function is expected to return 'double' type object.''"

text \<open>
  The message for a component out of range. \<^verbatim>\<open>funcio->size()-1\<close> is computed in
  \<^verbatim>\<open>std::size_t\<close>: for size 0 it wraps around to \<open>2 ^ 64 - 1\<close>.
\<close>

definition component_message :: "32 word \<Rightarrow> nat \<Rightarrow> string" where
  "component_message component n =
     ''Trying to extract component '' @ string_of_nat (unat component)
     @ '' from from object with size '' @ string_of_nat n @ ''.'' @ [CHR 0x0A]
     @ ''Index must be in [0,'' @ string_of_nat ((n + (2 ^ 64 - 1)) mod 2 ^ 64) @ ''].''"

text \<open>
  \<^verbatim>\<open>At::getFunction\<close>. The node's argument function \<^verbatim>\<open>_fn\<close> is given by its own
  \<^verbatim>\<open>getFunction\<close>, or is absent. \<^verbatim>\<open>_component\<close>, \<^verbatim>\<open>compforLambda\<close> and
  \<^verbatim>\<open>iodatasize\<close> are \<^verbatim>\<open>unsigned\<close>: the two products are computed in 32 bits and
  then widened.
\<close>

definition At_getFunction :: "string \<Rightarrow> getFunction option \<Rightarrow> 32 word \<Rightarrow> getFunction" where
  "At_getFunction pyfnerrorheader fn component s sample_input =
     (case (case fn of Some f \<Rightarrow> f s sample_input | None \<Rightarrow> (Inr identity_func, s)) of
        (Inl e, s1) \<Rightarrow> (Inl e, s1)
      | (Inr func', s1) \<Rightarrow>
          (case func' s1 sample_input of
             (Inl e, s2) \<Rightarrow> (Inl e, s2)
           | (Inr funcio, s2) \<Rightarrow>
               if \<not> is_IO_double funcio
               then (Inl (invalid_argument (pyfnerrorheader @ not_double_message)), s2)
               else if size_io funcio \<le> unat component
               then (Inl (invalid_argument
                            (pyfnerrorheader @ component_message component (size_io funcio))), s2)
               else
                 (let compforLambda = component;
                      iodatasize = (word_of_nat sizeof_double :: 32 word);
                      startOffset = unat (iodatasize * compforLambda);
                      endOffset = unat (iodatasize * (compforLambda + 1))
                  in (Inr (At_closure func' startOffset endOffset), s2))))"

section \<open>GradFeVariableFn: the gradient of a finite-element field\<close>

datatype InterpolationResult = OTHER_PROC | LOCAL | SHADOW | OUTSIDE_GLOBAL

text \<open>
  The field variable, with the StgFEM and StgDomain functions that the closures call on
  it. Those functions are not among the sources; they are fields here, and nothing is
  assumed about them. Each of the numerical ones receives the content of the value
  array it writes to and returns the content as it leaves it, and runs in the machine
  state.
\<close>

record FeVariable =
  fieldComponentCount :: nat
  dim :: nat
  feMesh :: address
  parentMesh :: address
  FeVariable_InterpolateDerivativesToElLocalCoord ::
    "nat \<Rightarrow> byte list \<Rightarrow> byte list \<Rightarrow> machine \<Rightarrow> byte list \<times> machine"
  FeVariable_InterpolateDerivativesAt ::
    "byte list \<Rightarrow> byte list \<Rightarrow> machine \<Rightarrow> (InterpolationResult \<times> byte list) \<times> machine"
  FeMesh_GetNodeElements :: "nat \<Rightarrow> nat list"
  FeMesh_CoordGlobalToLocal :: "nat \<Rightarrow> byte list \<Rightarrow> machine \<Rightarrow> byte list \<times> machine"
  Mesh_GetVertex :: "nat \<Rightarrow> byte list"

text \<open>What the constructor's \<^verbatim>\<open>void*\<close> points to.\<close>

datatype Stg_Object = Stg_FeVariable FeVariable | Stg_Other

definition Stg_Class_IsInstance_FeVariable :: "Stg_Object \<Rightarrow> bool" where
  "Stg_Class_IsInstance_FeVariable obj =
     (case obj of Stg_FeVariable _ \<Rightarrow> True | Stg_Other \<Rightarrow> False)"

definition not_meshvariable_message :: string where
  "not_meshvariable_message =
     ''Provided variable does not appear to be of 'MeshVariable' type.''"

text \<open>
  The constructor: the node is the field variable it keeps. Past the test the object
  is a finite-element variable, so the last case below is never reached.
\<close>

definition GradFeVariableFn_new :: "string \<Rightarrow> Stg_Object \<Rightarrow> error + FeVariable" where
  "GradFeVariableFn_new pyfnerrorheader fevariable =
     (if \<not> Stg_Class_IsInstance_FeVariable fevariable
      then Inl (invalid_argument (pyfnerrorheader @ not_meshvariable_message))
      else (case fevariable of Stg_FeVariable fevar \<Rightarrow> Inr fevar
            | Stg_Other \<Rightarrow> Inl undefined_behaviour))"

definition dimensionality_message :: "nat \<Rightarrow> nat \<Rightarrow> string" where
  "dimensionality_message n d =
     ''Function input dimensionality ('' @ string_of_nat n @ '') ''
     @ ''does not appear to match mesh variable dimensionality ('' @ string_of_nat d @ '').''"

text \<open>
  The message of the range error. How a double is printed is left to the parameter
  \<open>show_double\<close>.
\<close>

definition location_message :: "(byte list \<Rightarrow> string) \<Rightarrow> FunctionIO \<Rightarrow> string" where
  "location_message show_double iodouble =
     ''FeVariable derivative interpolation at location ('' @ show_double (at_io iodouble 0)
     @ concat (map (\<lambda>ii. '', '' @ show_double (at_io iodouble ii)) [1..<size_io iodouble])
     @ '') does not appear to be valid.'' @ [CHR 0x0A]
     @ ''Location is probably outside local domain.''"

definition incompatible_message :: string where
  "incompatible_message =
     [CHR 0x27] @ ''GradFeVariableFn' does not appear to be compatible with provided input type.''"

text \<open>
  \<^verbatim>\<open>std::make_shared<IO_double>(n, iotype)\<close>: a new array of \<open>n\<close> doubles, all zero.
  The result is its address.
\<close>

definition make_shared_IO_double :: "nat \<Rightarrow> machine \<Rightarrow> address \<times> machine" where
  "make_shared_IO_double n s =
     (next_buffer s,
      s\<lparr>buffers := (buffers s)(next_buffer s := replicate (sizeof_double * n) 0),
        next_buffer := Suc (next_buffer s)\<rparr>)"

text \<open>
  The three lambdas capture \<^verbatim>\<open>_output\<close>, the one array that \<^verbatim>\<open>getFunction\<close>
  allocates. At every call the interpolation is given that array, with what the call
  before left in it, and the lambda returns that array. In the model the array is
  \<open>buffers s output\<close>; the object returned is given by its content when the call
  returns, which is also the content the array keeps for the next call.
\<close>

text \<open>The lambda for an element-local coordinate.\<close>

definition Grad_closure_FEMCoordinate :: "FeVariable \<Rightarrow> IOType \<Rightarrow> address \<Rightarrow> func" where
  "Grad_closure_FEMCoordinate fevar t output s input =
     (case as_FEMCoordinate input of
        None \<Rightarrow> (Inl undefined_behaviour, s)
      | Some femCoord \<Rightarrow>
          (case FeVariable_InterpolateDerivativesToElLocalCoord fevar
                  (fem_index femCoord) (fem_localCoord femCoord) (buffers s output) s of
             (values, s1) \<Rightarrow>
               (Inr (new_IO_double t values),
                s1\<lparr>buffers := (buffers s1)(output := values)\<rparr>)))"

text \<open>
  The lambda for a mesh vertex. \<^verbatim>\<open>nbrElCount-1\<close> is computed in \<^verbatim>\<open>unsigned\<close>: for
  an empty list it is \<open>2 ^ 32 - 1\<close>, an index outside the list.
\<close>

definition Grad_closure_MeshCoordinate :: "FeVariable \<Rightarrow> IOType \<Rightarrow> address \<Rightarrow> func" where
  "Grad_closure_MeshCoordinate fevar t output s input =
     (case as_MeshCoordinate input of
        None \<Rightarrow> (Inl undefined_behaviour, s)
      | Some meshCoord \<Rightarrow>
          (let index = mc_index meshCoord;
               nbrElList = FeMesh_GetNodeElements fevar index;
               nbrElCount = length nbrElList;
               lastIndex = (if nbrElCount = 0 then 2 ^ 32 - 1 else nbrElCount - 1)
           in if \<not> lastIndex < length nbrElList then (Inl undefined_behaviour, s)
              else
                (case FeMesh_CoordGlobalToLocal fevar (nbrElList ! lastIndex)
                        (Mesh_GetVertex fevar index) s of
                   (elLocalCoord, s1) \<Rightarrow>
                     (case FeVariable_InterpolateDerivativesToElLocalCoord fevar
                             (nbrElList ! lastIndex) elLocalCoord (buffers s1 output) s1 of
                        (values, s2) \<Rightarrow>
                          (Inr (new_IO_double t values),
                           s2\<lparr>buffers := (buffers s2)(output := values)\<rparr>)))))"

text \<open>
  The lambda for a global coordinate. The interpolation has had the array before its
  answer is tested, so the array keeps what it left there also when the lambda throws.
  Building the message reads \<^verbatim>\<open>at(0)\<close>, which lies outside an empty input. The
  loop counter \<^verbatim>\<open>ii\<close> is \<^verbatim>\<open>unsigned\<close>: for an input of \<open>2 ^ 32\<close> doubles or
  more it wraps around before it reaches \<^verbatim>\<open>size()\<close>, and the loop has no end;
  \<open>never_returns\<close> is that case.
\<close>

definition Grad_closure_global ::
  "string \<Rightarrow> (byte list \<Rightarrow> string) \<Rightarrow> FeVariable \<Rightarrow> IOType \<Rightarrow> address \<Rightarrow> func" where
  "Grad_closure_global pyfnerrorheader show_double fevar t output s input =
     (if \<not> is_IO_double input then (Inl undefined_behaviour, s)
      else
        (case FeVariable_InterpolateDerivativesAt fevar (dataRaw input) (buffers s output) s of
           ((retval, values), s1) \<Rightarrow>
             (let s2 = s1\<lparr>buffers := (buffers s1)(output := values)\<rparr>
              in if \<not> (retval = LOCAL \<or> retval = SHADOW)
                 then
                   (if size_io input = 0 then (Inl undefined_behaviour, s2)
                    else if 2 ^ 32 \<le> size_io input then (Inl never_returns, s2)
                    else (Inl (range_error
                           (pyfnerrorheader @ location_message show_double input)), s2))
                 else (Inr (new_IO_double t values), s2))))"

text \<open>Which branch of \<^verbatim>\<open>GradFeVariableFn::getFunction\<close> a sample input takes.\<close>

definition on_parent_mesh :: "FeVariable \<Rightarrow> FunctionIO \<Rightarrow> bool" where
  "on_parent_mesh fevar sample_input =
     (case as_FEMCoordinate sample_input of
        None \<Rightarrow> False
      | Some femCoord \<Rightarrow> fem_mesh femCoord = parentMesh fevar)"

definition on_identical_mesh :: "FeVariable \<Rightarrow> FunctionIO \<Rightarrow> bool" where
  "on_identical_mesh fevar sample_input =
     (case as_MeshCoordinate sample_input of
        None \<Rightarrow> False
      | Some meshCoord \<Rightarrow> mc_object meshCoord = feMesh fevar)"

text \<open>
  \<^verbatim>\<open>GradFeVariableFn::getFunction\<close>. The output array is allocated first. When
  \<^verbatim>\<open>getFunction\<close> throws, the shared pointer that owns the array goes out of scope
  and the array is released: the state is the one of before the call.
\<close>

definition GradFeVariableFn_getFunction ::
  "string \<Rightarrow> (byte list \<Rightarrow> string) \<Rightarrow> FeVariable \<Rightarrow> getFunction" where
  "GradFeVariableFn_getFunction pyfnerrorheader show_double fevar s sample_input =
     (let numComponents = fieldComponentCount fevar;
          t = (if dim fevar = 1 then Vector else Tensor)
      in case make_shared_IO_double (numComponents * dim fevar) s of
           (output, s1) \<Rightarrow>
             if on_parent_mesh fevar sample_input
             then (Inr (Grad_closure_FEMCoordinate fevar t output), s1)
             else if on_identical_mesh fevar sample_input
             then (Inr (Grad_closure_MeshCoordinate fevar t output), s1)
             else if is_IO_double sample_input
             then
               (if size_io sample_input \<noteq> dim fevar
                then (Inl (runtime_error
                        (pyfnerrorheader
                         @ dimensionality_message (size_io sample_input) (dim fevar))), s)
                else (Inr (Grad_closure_global pyfnerrorheader show_double fevar t output), s1))
             else (Inl (invalid_argument (pyfnerrorheader @ incompatible_message)), s))"

section \<open>Configuring the inner solve of the Stokes solver\<close>

text \<open>
  Modelled from the spec: the names that \<^verbatim>\<open>StokesSolver.set_inner_method\<close> accepts for
  the inner velocity solve. The method is in \<^verbatim>\<open>underworld/systems/_bsscr.py\<close>, which is
  not among the sources; the list is the one of its help text, printed in
  \<^verbatim>\<open>docs/user_guide/09_StokesSolver.ipynb\<close>: multigrid, the parallel direct solvers
  MUMPS and distributed SuperLU, and the serial direct solvers SuperLU and LU.
\<close>

definition recognised_inner_methods :: "string list" where
  "recognised_inner_methods = [''mg'', ''mumps'', ''superludist'', ''superlu'', ''lu'']"

text \<open>
  Modelled from the spec: the methods that the help text of
  \<^verbatim>\<open>set_inner_method\<close> marks "serial only".
\<close>

definition serial_only :: "string \<Rightarrow> bool" where
  "serial_only solve_type = (solve_type = ''superlu'' \<or> solve_type = ''lu'')"

text \<open>
  Modelled from the spec: the two configuration errors of section 7, an invalid method
  name and a serial-only method in a run of several processes.
\<close>

datatype configuration_error = invalid_method string | serial_only_method string

text \<open>
  Modelled from the spec: the state of a solver as far as the claim needs it, the
  configured inner method and the number of solves attempted.
\<close>

record StokesSolver =
  inner_method :: string
  solves_attempted :: nat

text \<open>
  Modelled from the spec: \<^verbatim>\<open>set_inner_method\<close>, whose code is not among the sources.
  By section 7 of the spec both configuration errors are fatal and raised at once, at
  configure time.
\<close>

definition set_inner_method ::
  "nat \<Rightarrow> string \<Rightarrow> StokesSolver \<Rightarrow> configuration_error + StokesSolver" where
  "set_inner_method nProcs solve_type solver =
     (if solve_type \<notin> set recognised_inner_methods then Inl (invalid_method solve_type)
      else if serial_only solve_type \<and> 1 < nProcs then Inl (serial_only_method solve_type)
      else Inr (solver\<lparr>inner_method := solve_type\<rparr>))"

text \<open>
  Modelled from the spec: a solve, of which only the attempt is recorded, and a session
  that configures the inner method and then solves. The code of \<^verbatim>\<open>solve\<close> is not
  among the sources.
\<close>

definition solve :: "StokesSolver \<Rightarrow> StokesSolver" where
  "solve solver = solver\<lparr>solves_attempted := solves_attempted solver + 1\<rparr>"

definition configure_then_solve ::
  "nat \<Rightarrow> string \<Rightarrow> StokesSolver \<Rightarrow> configuration_error + StokesSolver" where
  "configure_then_solve nProcs solve_type solver =
     (case set_inner_method nProcs solve_type solver of
        Inl e \<Rightarrow> Inl e
      | Inr configured \<Rightarrow> Inr (solve configured))"

section \<open>Sample values\<close>

text \<open>Concrete states, inputs and functions, for the instances below.\<close>

definition default_env :: machine where
  "default_env =
     \<lparr>flags = {}, rounding = FE_TONEAREST, traps = {},
      buffers = (\<lambda>a. []), next_buffer = 0\<rparr>"



text \<open>A vector of three doubles, and a vector of four 32-bit integers, which is not
  double-valued.\<close>

definition example_vector :: FunctionIO where
  "example_vector = new_IO_double Vector
     ([1, 0, 0, 0, 0, 0, 0, 0] @ [2, 0, 0, 0, 0, 0, 0, 0] @ [3, 0, 0, 0, 0, 0, 0, 0])"

definition example_integers :: FunctionIO where
  "example_integers =
     \<lparr>iotype = Vector, dataRaw = [1, 0, 0, 0, 2, 0, 0, 0, 3, 0, 0, 0, 4, 0, 0, 0],
      is_IO_double = False,
      as_FEMCoordinate = None, as_MeshCoordinate = None\<rparr>"



text \<open>A vector of \<open>2 ^ 29 + 1\<close> doubles: the first is not zero, all the others are.\<close>

definition huge_vector :: FunctionIO where
  "huge_vector = new_IO_double Vector ([1, 0, 0, 0, 0, 0, 0, 0] @ replicate 4294967296 0)"

text \<open>
  A field variable with one component on a two-dimensional mesh at address 100, whose
  parent mesh is at address 200. Vertex \<open>v\<close> lies in the elements \<open>v\<close>, \<open>v + 1\<close> and
  \<open>v + 7\<close>, in that order. Interpolation in an element fills the value array with the
  number of the element, so that the element used shows in the output. The location
  search decides by the first byte of the coordinate: 0 is found locally, and the array
  is filled with 7; 2 is found in the shadow region, and the array is left as it is;
  every other coordinate is outside the domain, and the array is left as it is.
\<close>

definition example_fevar :: FeVariable where
  "example_fevar =
     \<lparr>fieldComponentCount = 1, dim = 2, feMesh = 100, parentMesh = 200,
      FeVariable_InterpolateDerivativesToElLocalCoord =
        (\<lambda>element xi values s. (replicate 16 (word_of_nat element), s)),
      FeVariable_InterpolateDerivativesAt =
        (\<lambda>coord values s.
           if take 1 coord = [0] then ((LOCAL, replicate 16 7), s)
           else if take 1 coord = [2] then ((SHADOW, values), s)
           else ((OUTSIDE_GLOBAL, values), s)),
      FeMesh_GetNodeElements = (\<lambda>v. [v, v + 1, v + 7]),
      FeMesh_CoordGlobalToLocal = (\<lambda>element coord s. (coord, s)),
      Mesh_GetVertex = (\<lambda>v. replicate 16 0)\<rparr>"

text \<open>Vertex 3 of the mesh at address 100.\<close>

definition example_vertex :: FunctionIO where
  "example_vertex =
     \<lparr>iotype = Vector, dataRaw = replicate 16 0, is_IO_double = True,
      as_FEMCoordinate = None,
      as_MeshCoordinate = Some \<lparr>mc_object = 100, mc_index = 3\<rparr>\<rparr>"

text \<open>Three global coordinates in two dimensions: one inside the domain, one in the
  shadow region, one outside.\<close>

definition example_point :: FunctionIO where
  "example_point = new_IO_double Vector (replicate 16 0)"

definition example_shadow_point :: FunctionIO where
  "example_shadow_point =
     new_IO_double Vector ([2, 0, 0, 0, 0, 0, 0, 0] @ [0, 0, 0, 0, 0, 0, 0, 0])"

definition example_far_point :: FunctionIO where
  "example_far_point =
     new_IO_double Vector ([1, 0, 0, 0, 0, 0, 0, 0] @ [0, 0, 0, 0, 0, 0, 0, 0])"

definition example_show_double :: "byte list \<Rightarrow> string" where
  "example_show_double bs = (if bs = [0, 0, 0, 0, 0, 0, 0, 0] then ''0'' else ''x'')"

text \<open>The state after \<^verbatim>\<open>getFunction\<close> has allocated an array of two doubles at address 0.\<close>

definition allocated_env :: machine where
  "allocated_env = default_env\<lparr>buffers := (buffers default_env)(0 := replicate 16 0),
     next_buffer := Suc 0\<rparr>"

text \<open>An element-local coordinate in element 5 of the parent mesh.\<close>

definition example_local_coordinate :: FunctionIO where
  "example_local_coordinate =
     \<lparr>iotype = Vector, dataRaw = replicate 16 0, is_IO_double = True,
      as_FEMCoordinate =
        Some \<lparr>fem_mesh = 200, fem_index = 5, fem_localCoord = replicate 16 0\<rparr>,
      as_MeshCoordinate = None\<rparr>"


section \<open>Properties of SafeMaths\<close>





lemma SafeMaths_closure_throws:
  assumes "func' (s\<lparr>flags := {}, traps := {}\<rparr>) input = (Inl e, s2)"
  shows "SafeMaths_closure hdr func' s input = (Inl e, s2)"
  using assms by (simp add: SafeMaths_closure_def feholdexcept_def)









section \<open>Properties of At\<close>

lemma string_of_nat_digit: "n < 10 \<Longrightarrow> string_of_nat n = [digit_char n]"
  by (simp add: string_of_nat.simps)

lemma iodatasize_eq: "(word_of_nat sizeof_double :: 32 word) = 8"
  by (simp add: sizeof_double_def)

lemma At_getFunction_checks:
  assumes "(case fn of Some f \<Rightarrow> f s sample_input | None \<Rightarrow> (Inr identity_func, s)) = (Inr func', s1)"
    and "func' s1 sample_input = (Inr funcio, s2)"
  shows "At_getFunction hdr fn k s sample_input =
     (if \<not> is_IO_double funcio
      then (Inl (invalid_argument (hdr @ not_double_message)), s2)
      else if unat k < size_io funcio
      then (Inr (At_closure func' (unat (8 * k)) (unat (8 * (k + 1)))), s2)
      else (Inl (invalid_argument (hdr @ component_message k (size_io funcio))), s2))"
  using assms by (simp add: At_getFunction_def iodatasize_eq Let_def not_less)

lemma At_getFunction_success:
  assumes "At_getFunction hdr fn k s sample_input = (Inr c, s')"
  obtains func' s1 funcio where
    "(case fn of Some f \<Rightarrow> f s sample_input | None \<Rightarrow> (Inr identity_func, s)) = (Inr func', s1)"
    and "func' s1 sample_input = (Inr funcio, s')"
    and "is_IO_double funcio" and "unat k < size_io funcio"
    and "c = At_closure func' (unat (8 * k)) (unat (8 * (k + 1)))"
proof -
  obtain r1 s1 where child:
    "(case fn of Some f \<Rightarrow> f s sample_input | None \<Rightarrow> (Inr identity_func, s)) = (r1, s1)"
    by (cases "case fn of Some f \<Rightarrow> f s sample_input | None \<Rightarrow> (Inr identity_func, s)")
  show thesis
  proof (cases r1)
    case (Inl e)
    with assms child show thesis
      by (simp add: At_getFunction_def)
  next
    case (Inr func')
    obtain r2 s2 where sample: "func' s1 sample_input = (r2, s2)"
      by (cases "func' s1 sample_input")
    show thesis
    proof (cases r2)
      case (Inl e)
      with assms child Inr sample show thesis
        by (simp add: At_getFunction_def)
    next
      case funcio: (Inr funcio)
      have eq: "At_getFunction hdr fn k s sample_input =
         (if \<not> is_IO_double funcio
          then (Inl (invalid_argument (hdr @ not_double_message)), s2)
          else if unat k < size_io funcio
          then (Inr (At_closure func' (unat (8 * k)) (unat (8 * (k + 1)))), s2)
          else (Inl (invalid_argument (hdr @ component_message k (size_io funcio))), s2))"
        using child Inr sample funcio by (simp add: At_getFunction_checks)
      from eq assms have "is_IO_double funcio"
        by (simp split: if_splits)
      moreover from eq assms have "unat k < size_io funcio"
        by (simp split: if_splits)
      moreover from eq assms calculation
      have "c = At_closure func' (unat (8 * k)) (unat (8 * (k + 1)))" and "s' = s2"
        by simp_all
      ultimately show thesis
        using that child Inr sample funcio by simp
    qed
  qed
qed

lemma At_closure_result:
  assumes "func' st input = (Inr io, st1)"
  shows "At_closure func' start finish st input =
     (if start \<le> finish \<and> finish \<le> length (dataRaw io) \<and> finish - start \<le> 8
      then (Inr (new_IO_double Scalar
              (take (finish - start) (drop start (dataRaw io))
               @ replicate (8 - (finish - start)) 0)), st1)
      else (Inl undefined_behaviour, st1))"
  using assms by (simp add: At_closure_def std_copy_def sizeof_double_def)

lemma At_closure_error:
  assumes "func' st input = (Inl e, st1)"
  shows "At_closure func' start finish st input = (Inl e, st1)"
  using assms by (simp add: At_closure_def)

text \<open>The two offsets are eight bytes apart unless the second has wrapped around.\<close>

lemma At_offsets_apart:
  fixes k :: "32 word"
  assumes "unat (8 * k) \<le> unat (8 * (k + 1))"
  shows "unat (8 * (k + 1)) = unat (8 * k) + 8"
proof -
  have "unat (8 * k) = (8 * unat k) mod 4294967296"
    by (simp add: unat_word_ariths)
  then have "8 dvd unat (8 * k)"
    by (simp add: dvd_mod)
  then obtain q where q: "unat (8 * k) = 8 * q"
    by (auto elim: dvdE)
  have lt: "unat (8 * k) < 4294967296"
    using unsigned_less [of "8 * k", where ?'a = nat] by simp
  have split: "8 * (k + 1) = 8 * k + 8"
    by (simp add: distrib_left)
  have "unat (8 * k + 8) = (unat (8 * k) + unat (8 :: 32 word)) mod 2 ^ LENGTH(32)"
    by (rule unat_word_ariths)
  then have b: "unat (8 * (k + 1)) = (8 * q + 8) mod 4294967296"
    unfolding split q by simp
  show ?thesis
  proof (cases "8 * q + 8 < 4294967296")
    case True
    then show ?thesis
      using b q by simp
  next
    case False
    have "q < 536870912"
      using lt q by simp
    moreover have "\<not> q + 1 < 536870912"
      using False by simp
    ultimately have "q = 536870911"
      by linarith
    then have "8 * q + 8 = 4294967296"
      by simp
    with b have "unat (8 * (k + 1)) = 0"
      by simp
    with assms q \<open>8 * q + 8 = 4294967296\<close> show ?thesis
      by linarith
  qed
qed

lemma At_offsets_small:
  fixes k :: "32 word"
  assumes "unat k + 1 < 2 ^ 29"
  shows "unat (8 * k) = 8 * unat k" and "unat (8 * (k + 1)) = 8 * unat k + 8"
proof -
  show a: "unat (8 * k) = 8 * unat k"
    using assms by (simp add: unat_word_ariths)
  have "8 * (k + 1) = 8 * k + 8"
    by (simp add: distrib_left)
  then have "unat (8 * (k + 1)) = (unat (8 * k) + 8) mod 4294967296"
    by (simp add: unat_word_ariths)
  then show "unat (8 * (k + 1)) = 8 * unat k + 8"
    using assms a by simp
qed

text \<open>
  Without overflow in the offsets, the closure of an \<open>At\<close> node returns the bytes of
  component \<open>k\<close> of what its argument function returns.
\<close>

lemma At_closure_extracts:
  fixes k :: "32 word"
  assumes "unat k + 1 < 2 ^ 29"
    and "func' st input = (Inr io, st1)"
    and "unat k < size_io io"
  shows "At_closure func' (unat (8 * k)) (unat (8 * (k + 1))) st input =
           (Inr (new_IO_double Scalar (at_io io (unat k))), st1)"
proof -
  have "8 * (unat k + 1) \<le> length (dataRaw io)"
    using assms(3) by (simp add: size_io_def sizeof_double_def)
  then show ?thesis
    using assms(2) At_offsets_small [OF assms(1)]
    by (simp add: At_closure_result at_io_def sizeof_double_def)
qed

text \<open>
  C3, as amended. Let the argument function of an \<open>At\<close> node with component \<open>k\<close>
  (the identity, when the node has none) give a closure, and let that closure return
  the object \<open>funcio\<close> on the sample input. If \<open>funcio\<close> is double-valued of size
  \<open>n\<close>, \<^verbatim>\<open>getFunction\<close> returns a closure when \<open>k < n\<close>, and when \<open>n \<le> k\<close> it
  throws an invalid-argument error whose message states \<open>k\<close> and \<open>n\<close>. If \<open>funcio\<close>
  is not double-valued, \<^verbatim>\<open>getFunction\<close> throws an invalid-argument error with a
  fixed message, which states neither. Both errors are results of \<^verbatim>\<open>getFunction\<close>.
\<close>

theorem At_getFunction_validates:
  assumes "(case fn of Some f \<Rightarrow> f s sample_input | None \<Rightarrow> (Inr identity_func, s)) = (Inr func', s1)"
    and "func' s1 sample_input = (Inr funcio, s2)"
  shows "At_getFunction hdr fn k s sample_input =
     (if \<not> is_IO_double funcio
      then (Inl (invalid_argument
              (hdr @ ''Argument function is expected to return 'double' type object.'')), s2)
      else if unat k < size_io funcio
      then (Inr (At_closure func' (unat (8 * k)) (unat (8 * (k + 1)))), s2)
      else (Inl (invalid_argument
              (hdr @ ''Trying to extract component '' @ string_of_nat (unat k)
               @ '' from from object with size '' @ string_of_nat (size_io funcio) @ ''.''
               @ [CHR 0x0A] @ ''Index must be in [0,''
               @ string_of_nat ((size_io funcio + (2 ^ 64 - 1)) mod 2 ^ 64) @ ''].'')), s2))"
  using At_getFunction_checks [where fn = fn and s = s and sample_input = sample_input
      and func' = func' and ?s1.0 = s1 and funcio = funcio and ?s2.0 = s2 and hdr = hdr and k = k] assms
  by (simp add: not_double_message_def component_message_def)

text \<open>
  Three instances, for a node with no argument function. On a vector of three doubles
  component 1 is accepted and component 3 is refused; a vector of integers is refused
  for its type.
\<close>

theorem At_getFunction_validates_witness:
  "At_getFunction ''uw: '' None 1 default_env example_vector =
     (Inr (At_closure identity_func 8 16), default_env) \<and>
   At_getFunction ''uw: '' None 3 default_env example_vector =
     (Inl (invalid_argument
        (''uw: Trying to extract component 3 from from object with size 3.''
         @ [CHR 0x0A] @ ''Index must be in [0,2].'')), default_env) \<and>
   At_getFunction ''uw: '' None 1 default_env example_integers =
     (Inl (invalid_argument
        ''uw: Argument function is expected to return 'double' type object.''), default_env)"
  using
    At_getFunction_validates [where fn = None and s = default_env
      and sample_input = example_vector and func' = identity_func and ?s1.0 = default_env
      and funcio = example_vector and ?s2.0 = default_env and hdr = "''uw: ''" and k = 1]
    At_getFunction_validates [where fn = None and s = default_env
      and sample_input = example_vector and func' = identity_func and ?s1.0 = default_env
      and funcio = example_vector and ?s2.0 = default_env and hdr = "''uw: ''" and k = 3]
    At_getFunction_validates [where fn = None and s = default_env
      and sample_input = example_integers and func' = identity_func and ?s1.0 = default_env
      and funcio = example_integers and ?s2.0 = default_env and hdr = "''uw: ''" and k = 1]
  by (simp add: identity_func_def example_vector_def example_integers_def new_IO_double_def
      size_io_def sizeof_double_def string_of_nat_digit digit_char_def)

text \<open>
  C3 as stated fails for the error about the type: its message holds no digit at all,
  so it states neither the index (here 5) nor a size.
\<close>

theorem At_getFunction_validates_counterexample:
  "At_getFunction ''uw: '' None 5 default_env example_integers =
     (Inl (invalid_argument
        ''uw: Argument function is expected to return 'double' type object.''), default_env) \<and>
   set ''uw: Argument function is expected to return 'double' type object.''
     \<inter> set ''0123456789'' = {} \<and>
   string_of_nat (unat (5 :: 32 word)) = ''5''"
proof -
  have "At_getFunction ''uw: '' None 5 default_env example_integers =
     (Inl (invalid_argument (''uw: '' @ not_double_message)), default_env)"
    using At_getFunction_checks [where fn = None and s = default_env
      and sample_input = example_integers and func' = identity_func and ?s1.0 = default_env
      and funcio = example_integers and ?s2.0 = default_env and hdr = "''uw: ''" and k = 5]
    by (simp add: identity_func_def example_integers_def)
  then show ?thesis
    by (simp add: not_double_message_def string_of_nat_digit digit_char_def)
qed

text \<open>
  C9 at a component of \<open>2 ^ 29\<close>. The node has no argument function, and the sample
  input has \<open>2 ^ 29 + 1\<close> doubles, so \<^verbatim>\<open>getFunction\<close> accepts the component. The
  product \<^verbatim>\<open>iodatasize*compforLambda\<close> is \<open>2 ^ 32\<close>, which is 0 in 32 bits: the
  closure copies bytes 0 to 8. It returns component 0 of its input, and component
  \<open>2 ^ 29\<close> holds other bytes.
\<close>

theorem At_component_overflow:
  "At_getFunction ''uw: '' None 536870912 default_env huge_vector =
     (Inr (At_closure identity_func 0 8), default_env) \<and>
   At_closure identity_func 0 8 default_env huge_vector =
     (Inr (new_IO_double Scalar [1, 0, 0, 0, 0, 0, 0, 0]), default_env) \<and>
   at_io huge_vector 0 = [1, 0, 0, 0, 0, 0, 0, 0] \<and>
   at_io huge_vector 536870912 = replicate 8 0"
proof -
  have "At_getFunction ''uw: '' None 536870912 default_env huge_vector =
     (Inr (At_closure identity_func 0 8), default_env)"
    using At_getFunction_checks [where fn = None and s = default_env
      and sample_input = huge_vector and func' = identity_func and ?s1.0 = default_env
      and funcio = huge_vector and ?s2.0 = default_env and hdr = "''uw: ''" and k = 536870912]
    by (simp add: identity_func_def huge_vector_def new_IO_double_def size_io_def
        sizeof_double_def)
  moreover have "At_closure identity_func 0 8 default_env huge_vector =
     (Inr (new_IO_double Scalar [1, 0, 0, 0, 0, 0, 0, 0]), default_env)"
    using At_closure_result [where func' = identity_func and st = default_env
      and input = huge_vector and io = huge_vector and ?st1.0 = default_env
      and start = 0 and finish = 8]
    by (simp add: identity_func_def huge_vector_def new_IO_double_def)
  moreover have "at_io huge_vector 0 = [1, 0, 0, 0, 0, 0, 0, 0]"
    by (simp add: at_io_def huge_vector_def new_IO_double_def sizeof_double_def)
  moreover have "at_io huge_vector 536870912 = replicate 8 0"
    by (simp add: at_io_def huge_vector_def new_IO_double_def sizeof_double_def)
  ultimately show ?thesis
    by simp
qed

section \<open>Properties of GradFeVariableFn\<close>

lemma Grad_getFunction_branches:
  assumes "make_shared_IO_double (fieldComponentCount fevar * dim fevar) s = (output, s1)"
  shows "GradFeVariableFn_getFunction hdr show_double fevar s sample_input =
     (if on_parent_mesh fevar sample_input
      then (Inr (Grad_closure_FEMCoordinate fevar (if dim fevar = 1 then Vector else Tensor) output), s1)
      else if on_identical_mesh fevar sample_input
      then (Inr (Grad_closure_MeshCoordinate fevar (if dim fevar = 1 then Vector else Tensor) output), s1)
      else if is_IO_double sample_input
      then
        (if size_io sample_input \<noteq> dim fevar
         then (Inl (runtime_error
                 (hdr @ dimensionality_message (size_io sample_input) (dim fevar))), s)
         else (Inr (Grad_closure_global hdr show_double fevar (if dim fevar = 1 then Vector else Tensor) output), s1))
      else (Inl (invalid_argument (hdr @ incompatible_message)), s))"
  using assms by (simp add: GradFeVariableFn_getFunction_def Let_def)

lemma Grad_getFunction_global:
  assumes "\<not> on_parent_mesh fevar sample_input" and "\<not> on_identical_mesh fevar sample_input"
    and "is_IO_double sample_input"
  shows "GradFeVariableFn_getFunction hdr show_double fevar s sample_input =
     (if size_io sample_input \<noteq> dim fevar
      then (Inl (runtime_error
              (hdr @ dimensionality_message (size_io sample_input) (dim fevar))), s)
      else (Inr (Grad_closure_global hdr show_double fevar (if dim fevar = 1 then Vector else Tensor) (next_buffer s)),
            snd (make_shared_IO_double (fieldComponentCount fevar * dim fevar) s)))"
  using assms by (simp add: GradFeVariableFn_getFunction_def Let_def make_shared_IO_double_def)

lemma Grad_closure_FEMCoordinate_call:
  assumes "as_FEMCoordinate input = Some femCoord"
  shows "Grad_closure_FEMCoordinate fevar t output st input =
     (case FeVariable_InterpolateDerivativesToElLocalCoord fevar
             (fem_index femCoord) (fem_localCoord femCoord) (buffers st output) st of
        (values, st1) \<Rightarrow>
          (Inr (new_IO_double t values), st1\<lparr>buffers := (buffers st1)(output := values)\<rparr>))"
  using assms by (simp add: Grad_closure_FEMCoordinate_def)

lemma Grad_closure_MeshCoordinate_last:
  assumes "as_MeshCoordinate input = Some meshCoord"
    and "FeMesh_GetNodeElements fevar (mc_index meshCoord) \<noteq> []"
  shows "Grad_closure_MeshCoordinate fevar t output st input =
     (case FeMesh_CoordGlobalToLocal fevar (last (FeMesh_GetNodeElements fevar (mc_index meshCoord)))
             (Mesh_GetVertex fevar (mc_index meshCoord)) st of
        (elLocalCoord, st1) \<Rightarrow>
          (case FeVariable_InterpolateDerivativesToElLocalCoord fevar
                  (last (FeMesh_GetNodeElements fevar (mc_index meshCoord))) elLocalCoord
                  (buffers st1 output) st1 of
             (values, st2) \<Rightarrow>
               (Inr (new_IO_double t values),
                st2\<lparr>buffers := (buffers st2)(output := values)\<rparr>)))"
  using assms by (simp add: Grad_closure_MeshCoordinate_def Let_def last_conv_nth)

lemma Grad_closure_global_call:
  assumes "is_IO_double input" and "0 < size_io input" and "size_io input < 2 ^ 32"
  shows "Grad_closure_global hdr show_double fevar t output st input =
     (case FeVariable_InterpolateDerivativesAt fevar (dataRaw input) (buffers st output) st of
        ((retval, values), st1) \<Rightarrow>
          if retval = LOCAL \<or> retval = SHADOW
          then (Inr (new_IO_double t values), st1\<lparr>buffers := (buffers st1)(output := values)\<rparr>)
          else (Inl (range_error (hdr @ location_message show_double input)),
                st1\<lparr>buffers := (buffers st1)(output := values)\<rparr>))"
  using assms by (simp add: Grad_closure_global_def Let_def split: prod.split)

text \<open>
  C4. Let the sample input be a mesh vertex on the very mesh of the field (and not an
  element-local coordinate on its parent mesh, which comes first). Then
  \<^verbatim>\<open>getFunction\<close> allocates the output array and returns a closure. Evaluated in any
  state at a vertex whose list of incident elements is not empty, the closure takes the
  last element of the list, turns the vertex's coordinate into that element's local
  coordinate, and has the derivatives interpolated in that element into the output
  array, which it returns. The element is decided by the list alone, at every call. And
  when, in that element, the two mesh functions give results that depend neither on the
  state nor on what the array held, every evaluation returns the same values: a second
  evaluation, in the state the first one leaves, returns what the first returned.
\<close>

theorem Grad_vertex_uses_last_element:
  assumes "\<not> on_parent_mesh fevar sample_input" and "on_identical_mesh fevar sample_input"
    and "make_shared_IO_double (fieldComponentCount fevar * dim fevar) s = (output, s1)"
    and "as_MeshCoordinate input = Some meshCoord"
    and "FeMesh_GetNodeElements fevar (mc_index meshCoord) \<noteq> []"
    and "element = last (FeMesh_GetNodeElements fevar (mc_index meshCoord))"
    and "vertex = Mesh_GetVertex fevar (mc_index meshCoord)"
  shows "\<exists>c. GradFeVariableFn_getFunction hdr show_double fevar s sample_input = (Inr c, s1) \<and>
     (\<forall>st. c st input =
        (case FeMesh_CoordGlobalToLocal fevar element vertex st of
           (elLocalCoord, st1) \<Rightarrow>
             (case FeVariable_InterpolateDerivativesToElLocalCoord fevar element elLocalCoord
                     (buffers st1 output) st1 of
                (values, st2) \<Rightarrow>
                  (Inr (new_IO_double (if dim fevar = 1 then Vector else Tensor) values),
                   st2\<lparr>buffers := (buffers st2)(output := values)\<rparr>)))) \<and>
     ((\<forall>st. fst (FeMesh_CoordGlobalToLocal fevar element vertex st) = localCoord) \<and>
      (\<forall>array st. fst (FeVariable_InterpolateDerivativesToElLocalCoord fevar element
                          localCoord array st) = derivatives) \<longrightarrow>
      (\<forall>st. fst (c st input) = Inr (new_IO_double (if dim fevar = 1 then Vector else Tensor) derivatives) \<and>
            fst (c (snd (c st input)) input) = fst (c st input)))"
proof -
  let ?c = "Grad_closure_MeshCoordinate fevar (if dim fevar = 1 then Vector else Tensor) output"
  have get: "GradFeVariableFn_getFunction hdr show_double fevar s sample_input = (Inr ?c, s1)"
    using assms(1-3) by (simp add: Grad_getFunction_branches)
  have call: "?c st input =
        (case FeMesh_CoordGlobalToLocal fevar element vertex st of
           (elLocalCoord, st1) \<Rightarrow>
             (case FeVariable_InterpolateDerivativesToElLocalCoord fevar element elLocalCoord
                     (buffers st1 output) st1 of
                (values, st2) \<Rightarrow>
                  (Inr (new_IO_double (if dim fevar = 1 then Vector else Tensor) values),
                   st2\<lparr>buffers := (buffers st2)(output := values)\<rparr>)))" for st
    using assms(4-7) by (simp add: Grad_closure_MeshCoordinate_last)
  have same: "fst (?c st input) = Inr (new_IO_double (if dim fevar = 1 then Vector else Tensor) derivatives)"
    if fixed_coord: "\<forall>st. fst (FeMesh_CoordGlobalToLocal fevar element vertex st) = localCoord"
      and fixed_values: "\<forall>array st. fst (FeVariable_InterpolateDerivativesToElLocalCoord fevar element
                          localCoord array st) = derivatives"
    for st
  proof -
    obtain xi st1 where a: "FeMesh_CoordGlobalToLocal fevar element vertex st = (xi, st1)"
      by (cases "FeMesh_CoordGlobalToLocal fevar element vertex st")
    obtain vals st2 where b: "FeVariable_InterpolateDerivativesToElLocalCoord fevar element xi
        (buffers st1 output) st1 = (vals, st2)"
      by (cases "FeVariable_InterpolateDerivativesToElLocalCoord fevar element xi
        (buffers st1 output) st1")
    from fixed_coord a have "xi = localCoord"
      by (metis fst_conv)
    with fixed_values b have "vals = derivatives"
      by (metis fst_conv)
    with a b show ?thesis
      by (simp only: call prod.case fst_conv)
  qed
  from get call same show ?thesis
    by (intro exI [where x = ?c]) simp
qed

text \<open>
  An instance: vertex 3 lies in the elements 3, 4 and 10, and the output is the one
  interpolated in element 10, at the first evaluation and at the second.
\<close>

theorem Grad_vertex_uses_last_element_witness:
  "\<exists>c. GradFeVariableFn_getFunction ''uw: '' example_show_double example_fevar default_env
          example_vertex = (Inr c, allocated_env) \<and>
        fst (c allocated_env example_vertex) = Inr (new_IO_double Tensor (replicate 16 10)) \<and>
        fst (c (snd (c allocated_env example_vertex)) example_vertex) =
          Inr (new_IO_double Tensor (replicate 16 10))"
proof -
  have alloc: "make_shared_IO_double (fieldComponentCount example_fevar * dim example_fevar)
      default_env = (0, allocated_env)"
    by (simp add: make_shared_IO_double_def example_fevar_def default_env_def allocated_env_def
        sizeof_double_def)
  have sample: "\<not> on_parent_mesh example_fevar example_vertex"
    "on_identical_mesh example_fevar example_vertex"
    by (simp_all add: example_fevar_def example_vertex_def on_parent_mesh_def
        on_identical_mesh_def)
  have vertex: "as_MeshCoordinate example_vertex = Some \<lparr>mc_object = 100, mc_index = 3\<rparr>"
    "FeMesh_GetNodeElements example_fevar (mc_index \<lparr>mc_object = 100, mc_index = 3\<rparr>) \<noteq> []"
    "10 = last (FeMesh_GetNodeElements example_fevar (mc_index \<lparr>mc_object = 100, mc_index = 3\<rparr>))"
    "replicate 16 0 = Mesh_GetVertex example_fevar (mc_index \<lparr>mc_object = 100, mc_index = 3\<rparr>)"
    by (simp_all add: example_fevar_def example_vertex_def)
  have fixed:
    "\<forall>st. fst (FeMesh_CoordGlobalToLocal example_fevar 10 (replicate 16 0) st) = replicate 16 0"
    "\<forall>array st. fst (FeVariable_InterpolateDerivativesToElLocalCoord example_fevar 10
        (replicate 16 0) array st) = replicate 16 10"
    by (simp_all add: example_fevar_def)
  have tensor: "dim example_fevar = 2"
    by (simp add: example_fevar_def)
  from Grad_vertex_uses_last_element [OF sample alloc vertex,
      where hdr = "''uw: ''" and show_double = example_show_double
        and localCoord = "replicate 16 0" and derivatives = "replicate 16 10"]
  show ?thesis
  proof (elim exE conjE)
    fix c
    assume get: "GradFeVariableFn_getFunction ''uw: '' example_show_double example_fevar
        default_env example_vertex = (Inr c, allocated_env)"
      and same: "(\<forall>st. fst (FeMesh_CoordGlobalToLocal example_fevar 10 (replicate 16 0) st) =
            replicate 16 0) \<and>
        (\<forall>array st. fst (FeVariable_InterpolateDerivativesToElLocalCoord example_fevar 10
            (replicate 16 0) array st) = replicate 16 10) \<longrightarrow>
        (\<forall>st. fst (c st example_vertex) =
            Inr (new_IO_double (if dim example_fevar = 1 then Vector else Tensor)
                   (replicate 16 10)) \<and>
          fst (c (snd (c st example_vertex)) example_vertex) = fst (c st example_vertex))"
    from same fixed have "\<forall>st. fst (c st example_vertex) =
            Inr (new_IO_double (if dim example_fevar = 1 then Vector else Tensor)
                   (replicate 16 10)) \<and>
          fst (c (snd (c st example_vertex)) example_vertex) = fst (c st example_vertex)"
      by blast
    then have "fst (c allocated_env example_vertex) = Inr (new_IO_double Tensor (replicate 16 10))"
      and "fst (c (snd (c allocated_env example_vertex)) example_vertex) =
        Inr (new_IO_double Tensor (replicate 16 10))"
      by (simp_all add: tensor)
    with get show ?thesis
      by blast
  qed
qed

text \<open>
  C5. Let the sample input be a bare global coordinate: double-valued, and neither an
  element-local coordinate on the parent mesh nor a vertex of the field's mesh. If its
  size differs from the dimension of the field, \<^verbatim>\<open>getFunction\<close> throws a runtime error
  whose message states both numbers. None of the field's interpolation and location
  functions enters the result, and the environment is left as it was.
\<close>

theorem Grad_dimension_mismatch:
  assumes "\<not> on_parent_mesh fevar sample_input" and "\<not> on_identical_mesh fevar sample_input"
    and "is_IO_double sample_input"
    and "size_io sample_input \<noteq> dim fevar"
  shows "GradFeVariableFn_getFunction hdr show_double fevar s sample_input =
     (Inl (runtime_error
        (hdr @ ''Function input dimensionality ('' @ string_of_nat (size_io sample_input)
         @ '') does not appear to match mesh variable dimensionality (''
         @ string_of_nat (dim fevar) @ '').'')), s)"
  using assms by (simp add: Grad_getFunction_global dimensionality_message_def)

text \<open>An instance: a coordinate of three doubles for a field of dimension two.\<close>

theorem Grad_dimension_mismatch_witness:
  "GradFeVariableFn_getFunction ''uw: '' example_show_double example_fevar default_env
     example_vector =
     (Inl (runtime_error
        ''uw: Function input dimensionality (3) does not appear to match mesh variable dimensionality (2).''),
      default_env)"
  using Grad_dimension_mismatch [where fevar = example_fevar and sample_input = example_vector
      and hdr = "''uw: ''" and show_double = example_show_double and s = default_env]
  by (simp add: example_fevar_def example_vector_def new_IO_double_def on_parent_mesh_def
      on_identical_mesh_def size_io_def sizeof_double_def string_of_nat_digit digit_char_def)


text \<open>
  C6. Let the sample input be a bare global coordinate of the field's dimension, so
  that \<^verbatim>\<open>getFunction\<close> allocates the output array and returns a closure. Evaluate
  the closure, in any state, at a point: a double-valued input of at least one
  coordinate (and of fewer than \<open>2 ^ 32\<close>, the range of the counter that prints them).
  The location search is given the coordinate and the output array as the state holds
  it. If it answers \<^verbatim>\<open>LOCAL\<close> or \<^verbatim>\<open>SHADOW\<close>, the closure returns the output array
  as the search leaves it. For every other answer it throws a range error, whose
  message lists the coordinates and ends "Location is probably outside local domain.".
\<close>

theorem Grad_global_coordinate:
  assumes "\<not> on_parent_mesh fevar sample_input" and "\<not> on_identical_mesh fevar sample_input"
    and "is_IO_double sample_input"
    and "size_io sample_input = dim fevar"
    and "make_shared_IO_double (fieldComponentCount fevar * dim fevar) s = (output, s1)"
    and "is_IO_double input" and "0 < size_io input" and "size_io input < 2 ^ 32"
  shows "\<exists>c. GradFeVariableFn_getFunction hdr show_double fevar s sample_input = (Inr c, s1) \<and>
     (\<forall>st. c st input =
        (case FeVariable_InterpolateDerivativesAt fevar (dataRaw input) (buffers st output) st of
           ((retval, values), st1) \<Rightarrow>
             if retval = LOCAL \<or> retval = SHADOW
             then (Inr (new_IO_double (if dim fevar = 1 then Vector else Tensor) values),
                   st1\<lparr>buffers := (buffers st1)(output := values)\<rparr>)
             else (Inl (range_error
                     (hdr @ ''FeVariable derivative interpolation at location (''
                      @ show_double (at_io input 0)
                      @ concat (map (\<lambda>ii. '', '' @ show_double (at_io input ii))
                                  [1..<size_io input])
                      @ '') does not appear to be valid.'' @ [CHR 0x0A]
                      @ ''Location is probably outside local domain.'')),
                   st1\<lparr>buffers := (buffers st1)(output := values)\<rparr>)))"
proof -
  let ?c = "Grad_closure_global hdr show_double fevar (if dim fevar = 1 then Vector else Tensor) output"
  have "GradFeVariableFn_getFunction hdr show_double fevar s sample_input = (Inr ?c, s1)"
    using assms(1-5) by (simp add: Grad_getFunction_branches)
  moreover have "?c st input =
        (case FeVariable_InterpolateDerivativesAt fevar (dataRaw input) (buffers st output) st of
           ((retval, values), st1) \<Rightarrow>
             if retval = LOCAL \<or> retval = SHADOW
             then (Inr (new_IO_double (if dim fevar = 1 then Vector else Tensor) values),
                   st1\<lparr>buffers := (buffers st1)(output := values)\<rparr>)
             else (Inl (range_error
                     (hdr @ ''FeVariable derivative interpolation at location (''
                      @ show_double (at_io input 0)
                      @ concat (map (\<lambda>ii. '', '' @ show_double (at_io input ii))
                                  [1..<size_io input])
                      @ '') does not appear to be valid.'' @ [CHR 0x0A]
                      @ ''Location is probably outside local domain.'')),
                   st1\<lparr>buffers := (buffers st1)(output := values)\<rparr>))" for st
    unfolding Grad_closure_global_call [OF assms(6-8)] location_message_def by (rule refl)
  ultimately show ?thesis
    by (intro exI [where x = ?c]) simp
qed

text \<open>
  Instances, for one closure. A point inside the domain gives the interpolated values.
  A point in the shadow region, for which the search leaves the array as it is, gives
  the zeros of the new array when it is the first call, and the values of the call
  before when it follows the point inside. A point outside gives the range error.
\<close>

theorem Grad_global_coordinate_witness:
  "\<exists>c. GradFeVariableFn_getFunction ''uw: '' example_show_double example_fevar default_env
          example_point = (Inr c, allocated_env) \<and>
        fst (c allocated_env example_point) = Inr (new_IO_double Tensor (replicate 16 7)) \<and>
        fst (c allocated_env example_shadow_point) =
          Inr (new_IO_double Tensor (replicate 16 0)) \<and>
        fst (c (snd (c allocated_env example_point)) example_shadow_point) =
          Inr (new_IO_double Tensor (replicate 16 7)) \<and>
        fst (c allocated_env example_far_point) =
          Inl (range_error
             (''uw: FeVariable derivative interpolation at location (x, 0) does not appear to be valid.''
              @ [CHR 0x0A] @ ''Location is probably outside local domain.''))"
proof -
  have alloc: "make_shared_IO_double (fieldComponentCount example_fevar * dim example_fevar)
      default_env = (0, allocated_env)"
    by (simp add: make_shared_IO_double_def example_fevar_def default_env_def allocated_env_def
        sizeof_double_def)
  have sample: "\<not> on_parent_mesh example_fevar example_point"
    "\<not> on_identical_mesh example_fevar example_point"
    "is_IO_double example_point" "size_io example_point = dim example_fevar"
    by (simp_all add: example_fevar_def example_point_def new_IO_double_def on_parent_mesh_def
        on_identical_mesh_def size_io_def sizeof_double_def)
  have near: "is_IO_double example_point" "0 < size_io example_point"
    "size_io example_point < 2 ^ 32"
    by (simp_all add: example_point_def new_IO_double_def size_io_def sizeof_double_def)
  have shadow: "is_IO_double example_shadow_point" "0 < size_io example_shadow_point"
    "size_io example_shadow_point < 2 ^ 32"
    by (simp_all add: example_shadow_point_def new_IO_double_def size_io_def sizeof_double_def)
  have far: "is_IO_double example_far_point" "0 < size_io example_far_point"
    "size_io example_far_point < 2 ^ 32"
    by (simp_all add: example_far_point_def new_IO_double_def size_io_def sizeof_double_def)
  have search:
    "FeVariable_InterpolateDerivativesAt example_fevar (dataRaw example_point) array st =
       ((LOCAL, replicate 16 7), st)"
    "FeVariable_InterpolateDerivativesAt example_fevar (dataRaw example_shadow_point) array st =
       ((SHADOW, array), st)"
    "FeVariable_InterpolateDerivativesAt example_fevar (dataRaw example_far_point) array st =
       ((OUTSIDE_GLOBAL, array), st)" for array st
    by (simp_all add: example_fevar_def example_point_def example_shadow_point_def
        example_far_point_def new_IO_double_def)
  have size2: "size_io example_far_point = 2" "[Suc 0..<2] = [Suc 0]"
    by (simp_all add: example_far_point_def new_IO_double_def size_io_def sizeof_double_def
        upt_rec)
  have tensor: "dim example_fevar = 2"
    by (simp add: example_fevar_def)
  have coords: "at_io example_far_point 0 = [1, 0, 0, 0, 0, 0, 0, 0]"
    "at_io example_far_point (Suc 0) = [0, 0, 0, 0, 0, 0, 0, 0]"
    by (simp_all add: at_io_def example_far_point_def new_IO_double_def sizeof_double_def)
  have zeros: "buffers allocated_env 0 = replicate 16 0"
    by (simp add: allocated_env_def)
  from
    Grad_global_coordinate [OF sample alloc near, where hdr = "''uw: ''"
      and show_double = example_show_double]
    Grad_global_coordinate [OF sample alloc shadow, where hdr = "''uw: ''"
      and show_double = example_show_double]
    Grad_global_coordinate [OF sample alloc far, where hdr = "''uw: ''"
      and show_double = example_show_double]
  show ?thesis
    by (auto simp: search tensor size2 coords zeros example_show_double_def)
qed

text \<open>
  C10. A sample input that is neither an element-local coordinate on the parent mesh,
  nor a vertex of the field's mesh, nor double-valued makes \<^verbatim>\<open>getFunction\<close> throw an
  invalid-argument error: no closure is returned. And the constructor throws an
  invalid-argument error when the object it is given is not a finite-element variable.
\<close>

theorem Grad_rejects_other_inputs:
  "(\<not> on_parent_mesh fevar sample_input \<and> \<not> on_identical_mesh fevar sample_input
      \<and> \<not> is_IO_double sample_input \<longrightarrow>
      GradFeVariableFn_getFunction hdr show_double fevar s sample_input =
        (Inl (invalid_argument
           (hdr @ [CHR 0x27]
            @ ''GradFeVariableFn' does not appear to be compatible with provided input type.'')),
         s)) \<and>
   (\<not> Stg_Class_IsInstance_FeVariable fevariable \<longrightarrow>
      GradFeVariableFn_new hdr fevariable =
        Inl (invalid_argument
          (hdr @ ''Provided variable does not appear to be of 'MeshVariable' type.'')))"
  by (simp add: GradFeVariableFn_getFunction_def GradFeVariableFn_new_def Let_def
      make_shared_IO_double_def incompatible_message_def not_meshvariable_message_def)

text \<open>An instance: a vector of integers as sample input, and an object of another class.\<close>

theorem Grad_rejects_other_inputs_witness:
  "GradFeVariableFn_getFunction ''uw: '' example_show_double example_fevar default_env
     example_integers =
     (Inl (invalid_argument
        (''uw: '' @ [CHR 0x27]
         @ ''GradFeVariableFn' does not appear to be compatible with provided input type.'')),
      default_env) \<and>
   GradFeVariableFn_new ''uw: '' Stg_Other =
     Inl (invalid_argument
       ''uw: Provided variable does not appear to be of 'MeshVariable' type.'')"
  using Grad_rejects_other_inputs [where fevar = example_fevar
      and sample_input = example_integers and fevariable = Stg_Other and hdr = "''uw: ''"
      and show_double = example_show_double and s = default_env]
  by (simp add: example_integers_def on_parent_mesh_def on_identical_mesh_def
      Stg_Class_IsInstance_FeVariable_def)

section \<open>Validation happens in getFunction, and only there\<close>

lemma At_getFunction_tests:
  assumes "(case fn of Some f \<Rightarrow> f s sample_input | None \<Rightarrow> (Inr identity_func, s)) = (Inr func', s1)"
    and "func' s1 sample_input = (Inr funcio, s2)"
  shows "At_getFunction hdr fn k s sample_input =
     (if \<not> is_IO_double funcio
      then (Inl (invalid_argument
                   (hdr @ ''Argument function is expected to return 'double' type object.'')), s2)
      else if size_io funcio \<le> unat k
      then (Inl (invalid_argument (hdr @ component_message k (size_io funcio))), s2)
      else (Inr (At_closure func' (unat (8 * k)) (unat (8 * (k + 1)))), s2))"
  using assms by (simp add: At_getFunction_checks not_double_message_def not_less)

lemma At_closure_call:
  fixes k :: "32 word"
  shows "At_closure func' (unat (8 * k)) (unat (8 * (k + 1))) st input =
     (case func' st input of
        (Inl e, st1) \<Rightarrow> (Inl e, st1)
      | (Inr io, st1) \<Rightarrow>
          if unat (8 * k) \<le> unat (8 * (k + 1)) \<and> unat (8 * (k + 1)) \<le> length (dataRaw io)
          then (Inr (new_IO_double Scalar (take 8 (drop (unat (8 * k)) (dataRaw io)))), st1)
          else (Inl undefined_behaviour, st1))"
proof -
  define start where "start = unat (8 * k)"
  define finish where "finish = unat (8 * (k + 1))"
  have apart: "start \<le> finish \<Longrightarrow> finish = start + 8"
    unfolding start_def finish_def by (rule At_offsets_apart)
  have "At_closure func' start finish st input =
     (case func' st input of
        (Inl e, st1) \<Rightarrow> (Inl e, st1)
      | (Inr io, st1) \<Rightarrow>
          if start \<le> finish \<and> finish \<le> length (dataRaw io)
          then (Inr (new_IO_double Scalar (take 8 (drop start (dataRaw io)))), st1)
          else (Inl undefined_behaviour, st1))"
  proof (cases "func' st input")
    case (Pair r st1)
    show ?thesis
    proof (cases r)
      case (Inl e)
      with Pair show ?thesis
        by (simp add: At_closure_error)
    next
      case (Inr io)
      with Pair have "func' st input = (Inr io, st1)"
        by simp
      then show ?thesis
        using apart by (auto simp: At_closure_result)
    qed
  qed
  then show ?thesis
    unfolding start_def finish_def .
qed

lemma Grad_closures_errors:
  "fst (Grad_closure_FEMCoordinate fevar t output st input) \<noteq> Inl (invalid_argument m)"
  "fst (Grad_closure_FEMCoordinate fevar t output st input) \<noteq> Inl (runtime_error m)"
  "fst (Grad_closure_MeshCoordinate fevar t output st input) \<noteq> Inl (invalid_argument m)"
  "fst (Grad_closure_MeshCoordinate fevar t output st input) \<noteq> Inl (runtime_error m)"
  "fst (Grad_closure_global hdr show_double fevar t output st input) \<noteq> Inl (invalid_argument m)"
  "fst (Grad_closure_global hdr show_double fevar t output st input) \<noteq> Inl (runtime_error m)"
  by (simp_all add: Grad_closure_FEMCoordinate_def Grad_closure_MeshCoordinate_def
      Grad_closure_global_def Let_def split: option.split prod.split)

text \<open>
  C7, for the two nodes of the sources that validate: \<open>At\<close> and \<open>GradFeVariableFn\<close>.

  \<^verbatim>\<open>getFunction\<close> validates. \<^verbatim>\<open>At::getFunction\<close> calls the closure of the argument
  function on the sample input; it throws an invalid-argument error when the object
  returned is not double-valued, and another when its size is not above the component;
  otherwise it returns the lambda over that closure, with two offsets fixed by the
  component. \<^verbatim>\<open>GradFeVariableFn::getFunction\<close> returns one of three lambdas, by the
  type and the mesh of the sample input, and throws for a bare coordinate whose size is
  not the dimension of the field, and for every other input.

  The closures do not validate. The closure of \<open>At\<close> passes on what the argument
  function throws; when the argument function returns an object, of whatever type and
  size, the outcome is decided by the length of the object's storage alone: the eight
  bytes between the offsets, or a read outside the storage. The closure for an
  element-local coordinate interpolates at every such coordinate, on whatever mesh. The
  closure for a vertex interpolates at every vertex that lies in some element, of
  whatever mesh. The closure for a global coordinate gives every double-valued input
  of at least one coordinate (and fewer than \<open>2 ^ 32\<close>) to the location search, whatever
  its size, and its only error is the range error of an input not found. At no input
  does one of the three throw an invalid-argument or a runtime error. The closures are
  values, with the offsets, the field and the output array fixed: a call does not
  change them, and another shape needs another call of \<^verbatim>\<open>getFunction\<close>.
\<close>

theorem validation_in_getFunction_only:
  fixes k :: "32 word"
  shows
   "((case fn of Some f \<Rightarrow> f s sample_input | None \<Rightarrow> (Inr identity_func, s)) = (Inr func', s1) \<and>
     func' s1 sample_input = (Inr funcio, s2) \<longrightarrow>
       At_getFunction hdr fn k s sample_input =
         (if \<not> is_IO_double funcio
          then (Inl (invalid_argument
                  (hdr @ ''Argument function is expected to return 'double' type object.'')), s2)
          else if size_io funcio \<le> unat k
          then (Inl (invalid_argument (hdr @ component_message k (size_io funcio))), s2)
          else (Inr (At_closure func' (unat (8 * k)) (unat (8 * (k + 1)))), s2))) \<and>
    (\<forall>st input.
       At_closure func' (unat (8 * k)) (unat (8 * (k + 1))) st input =
         (case func' st input of
            (Inl e, st1) \<Rightarrow> (Inl e, st1)
          | (Inr io, st1) \<Rightarrow>
              if unat (8 * k) \<le> unat (8 * (k + 1)) \<and> unat (8 * (k + 1)) \<le> length (dataRaw io)
              then (Inr (new_IO_double Scalar (take 8 (drop (unat (8 * k)) (dataRaw io)))), st1)
              else (Inl undefined_behaviour, st1))) \<and>
    (make_shared_IO_double (fieldComponentCount fevar * dim fevar) g = (output, g1) \<longrightarrow>
       GradFeVariableFn_getFunction hdr show_double fevar g grad_sample =
         (if on_parent_mesh fevar grad_sample
          then (Inr (Grad_closure_FEMCoordinate fevar
                       (if dim fevar = 1 then Vector else Tensor) output), g1)
          else if on_identical_mesh fevar grad_sample
          then (Inr (Grad_closure_MeshCoordinate fevar
                       (if dim fevar = 1 then Vector else Tensor) output), g1)
          else if is_IO_double grad_sample
          then
            (if size_io grad_sample \<noteq> dim fevar
             then (Inl (runtime_error
                     (hdr @ dimensionality_message (size_io grad_sample) (dim fevar))), g)
             else (Inr (Grad_closure_global hdr show_double fevar
                          (if dim fevar = 1 then Vector else Tensor) output), g1))
          else (Inl (invalid_argument
                  (hdr @ [CHR 0x27]
                   @ ''GradFeVariableFn' does not appear to be compatible with provided input type.'')),
                g))) \<and>
    (\<forall>st input femCoord.
       as_FEMCoordinate input = Some femCoord \<longrightarrow>
       Grad_closure_FEMCoordinate fevar t output st input =
         (case FeVariable_InterpolateDerivativesToElLocalCoord fevar
                 (fem_index femCoord) (fem_localCoord femCoord) (buffers st output) st of
            (values, st1) \<Rightarrow>
              (Inr (new_IO_double t values),
               st1\<lparr>buffers := (buffers st1)(output := values)\<rparr>))) \<and>
    (\<forall>st input meshCoord.
       as_MeshCoordinate input = Some meshCoord \<and>
       FeMesh_GetNodeElements fevar (mc_index meshCoord) \<noteq> [] \<longrightarrow>
       Grad_closure_MeshCoordinate fevar t output st input =
         (case FeMesh_CoordGlobalToLocal fevar
                 (last (FeMesh_GetNodeElements fevar (mc_index meshCoord)))
                 (Mesh_GetVertex fevar (mc_index meshCoord)) st of
            (elLocalCoord, st1) \<Rightarrow>
              (case FeVariable_InterpolateDerivativesToElLocalCoord fevar
                      (last (FeMesh_GetNodeElements fevar (mc_index meshCoord))) elLocalCoord
                      (buffers st1 output) st1 of
                 (values, st2) \<Rightarrow>
                   (Inr (new_IO_double t values),
                    st2\<lparr>buffers := (buffers st2)(output := values)\<rparr>)))) \<and>
    (\<forall>st input.
       is_IO_double input \<and> 0 < size_io input \<and> size_io input < 2 ^ 32 \<longrightarrow>
       Grad_closure_global hdr show_double fevar t output st input =
         (case FeVariable_InterpolateDerivativesAt fevar (dataRaw input) (buffers st output) st of
            ((retval, values), st1) \<Rightarrow>
              if retval = LOCAL \<or> retval = SHADOW
              then (Inr (new_IO_double t values),
                    st1\<lparr>buffers := (buffers st1)(output := values)\<rparr>)
              else (Inl (range_error (hdr @ location_message show_double input)),
                    st1\<lparr>buffers := (buffers st1)(output := values)\<rparr>))) \<and>
    (\<forall>c st input m.
       c = Grad_closure_FEMCoordinate fevar t output \<or>
       c = Grad_closure_MeshCoordinate fevar t output \<or>
       c = Grad_closure_global hdr show_double fevar t output \<longrightarrow>
       fst (c st input) \<noteq> Inl (invalid_argument m) \<and>
       fst (c st input) \<noteq> Inl (runtime_error m))"
proof (intro conjI)
  show "(case fn of Some f \<Rightarrow> f s sample_input | None \<Rightarrow> (Inr identity_func, s)) = (Inr func', s1) \<and>
     func' s1 sample_input = (Inr funcio, s2) \<longrightarrow>
       At_getFunction hdr fn k s sample_input =
         (if \<not> is_IO_double funcio
          then (Inl (invalid_argument
                  (hdr @ ''Argument function is expected to return 'double' type object.'')), s2)
          else if size_io funcio \<le> unat k
          then (Inl (invalid_argument (hdr @ component_message k (size_io funcio))), s2)
          else (Inr (At_closure func' (unat (8 * k)) (unat (8 * (k + 1)))), s2))"
    by (intro impI, elim conjE) (rule At_getFunction_tests)
next
  show "\<forall>st input.
       At_closure func' (unat (8 * k)) (unat (8 * (k + 1))) st input =
         (case func' st input of
            (Inl e, st1) \<Rightarrow> (Inl e, st1)
          | (Inr io, st1) \<Rightarrow>
              if unat (8 * k) \<le> unat (8 * (k + 1)) \<and> unat (8 * (k + 1)) \<le> length (dataRaw io)
              then (Inr (new_IO_double Scalar (take 8 (drop (unat (8 * k)) (dataRaw io)))), st1)
              else (Inl undefined_behaviour, st1))"
    by (intro allI) (rule At_closure_call)
next
  show "make_shared_IO_double (fieldComponentCount fevar * dim fevar) g = (output, g1) \<longrightarrow>
       GradFeVariableFn_getFunction hdr show_double fevar g grad_sample =
         (if on_parent_mesh fevar grad_sample
          then (Inr (Grad_closure_FEMCoordinate fevar
                       (if dim fevar = 1 then Vector else Tensor) output), g1)
          else if on_identical_mesh fevar grad_sample
          then (Inr (Grad_closure_MeshCoordinate fevar
                       (if dim fevar = 1 then Vector else Tensor) output), g1)
          else if is_IO_double grad_sample
          then
            (if size_io grad_sample \<noteq> dim fevar
             then (Inl (runtime_error
                     (hdr @ dimensionality_message (size_io grad_sample) (dim fevar))), g)
             else (Inr (Grad_closure_global hdr show_double fevar
                          (if dim fevar = 1 then Vector else Tensor) output), g1))
          else (Inl (invalid_argument
                  (hdr @ [CHR 0x27]
                   @ ''GradFeVariableFn' does not appear to be compatible with provided input type.'')),
                g))"
    unfolding incompatible_message_def [symmetric]
    by (intro impI) (rule Grad_getFunction_branches)
next
  show "\<forall>st input femCoord.
       as_FEMCoordinate input = Some femCoord \<longrightarrow>
       Grad_closure_FEMCoordinate fevar t output st input =
         (case FeVariable_InterpolateDerivativesToElLocalCoord fevar
                 (fem_index femCoord) (fem_localCoord femCoord) (buffers st output) st of
            (values, st1) \<Rightarrow>
              (Inr (new_IO_double t values),
               st1\<lparr>buffers := (buffers st1)(output := values)\<rparr>))"
    by (intro allI impI) (rule Grad_closure_FEMCoordinate_call)
next
  show "\<forall>st input meshCoord.
       as_MeshCoordinate input = Some meshCoord \<and>
       FeMesh_GetNodeElements fevar (mc_index meshCoord) \<noteq> [] \<longrightarrow>
       Grad_closure_MeshCoordinate fevar t output st input =
         (case FeMesh_CoordGlobalToLocal fevar
                 (last (FeMesh_GetNodeElements fevar (mc_index meshCoord)))
                 (Mesh_GetVertex fevar (mc_index meshCoord)) st of
            (elLocalCoord, st1) \<Rightarrow>
              (case FeVariable_InterpolateDerivativesToElLocalCoord fevar
                      (last (FeMesh_GetNodeElements fevar (mc_index meshCoord))) elLocalCoord
                      (buffers st1 output) st1 of
                 (values, st2) \<Rightarrow>
                   (Inr (new_IO_double t values),
                    st2\<lparr>buffers := (buffers st2)(output := values)\<rparr>)))"
    by (intro allI impI, elim conjE) (rule Grad_closure_MeshCoordinate_last)
next
  show "\<forall>st input.
       is_IO_double input \<and> 0 < size_io input \<and> size_io input < 2 ^ 32 \<longrightarrow>
       Grad_closure_global hdr show_double fevar t output st input =
         (case FeVariable_InterpolateDerivativesAt fevar (dataRaw input) (buffers st output) st of
            ((retval, values), st1) \<Rightarrow>
              if retval = LOCAL \<or> retval = SHADOW
              then (Inr (new_IO_double t values),
                    st1\<lparr>buffers := (buffers st1)(output := values)\<rparr>)
              else (Inl (range_error (hdr @ location_message show_double input)),
                    st1\<lparr>buffers := (buffers st1)(output := values)\<rparr>))"
    by (intro allI impI, elim conjE) (rule Grad_closure_global_call)
next
  show "\<forall>c st input m.
       c = Grad_closure_FEMCoordinate fevar t output \<or>
       c = Grad_closure_MeshCoordinate fevar t output \<or>
       c = Grad_closure_global hdr show_double fevar t output \<longrightarrow>
       fst (c st input) \<noteq> Inl (invalid_argument m) \<and>
       fst (c st input) \<noteq> Inl (runtime_error m)"
    by (auto simp: Grad_closures_errors)
qed

text \<open>
  Instances. An \<open>At\<close> node of component 1 refuses a vector of integers as sample input
  and accepts a vector of three doubles. The closure it then returns, called with the
  vector of integers, returns eight of its bytes as a double, and called with a single
  double it reads outside the storage. A gradient node on a field of dimension two
  refuses a sample coordinate of three doubles and accepts one of two. The closure it
  then returns, called with a point of three doubles, returns the derivatives found
  there, and called with a single double outside the domain it throws the range error.
  The closure for a vertex of the field's mesh interpolates at a vertex of another
  mesh, and the closure for a local coordinate on the parent mesh interpolates at a
  local coordinate on another mesh.
\<close>

theorem validation_in_getFunction_only_witness:
  "At_getFunction ''uw: '' None 1 default_env example_integers =
     (Inl (invalid_argument
        ''uw: Argument function is expected to return 'double' type object.''), default_env) \<and>
   At_getFunction ''uw: '' None 1 default_env example_vector =
     (Inr (At_closure identity_func 8 16), default_env) \<and>
   At_closure identity_func 8 16 default_env example_integers =
     (Inr (new_IO_double Scalar [3, 0, 0, 0, 4, 0, 0, 0]), default_env) \<and>
   At_closure identity_func 8 16 default_env (new_IO_double Scalar [5, 0, 0, 0, 0, 0, 0, 0]) =
     (Inl undefined_behaviour, default_env) \<and>
   GradFeVariableFn_getFunction ''uw: '' example_show_double example_fevar default_env
     example_vector =
     (Inl (runtime_error
        ''uw: Function input dimensionality (3) does not appear to match mesh variable dimensionality (2).''),
      default_env) \<and>
   GradFeVariableFn_getFunction ''uw: '' example_show_double example_fevar default_env
     example_point =
     (Inr (Grad_closure_global ''uw: '' example_show_double example_fevar Tensor 0),
      allocated_env) \<and>
   fst (Grad_closure_global ''uw: '' example_show_double example_fevar Tensor 0 allocated_env
          (new_IO_double Vector (replicate 24 0))) =
     Inr (new_IO_double Tensor (replicate 16 7)) \<and>
   fst (Grad_closure_global ''uw: '' example_show_double example_fevar Tensor 0 allocated_env
          (new_IO_double Scalar [5, 0, 0, 0, 0, 0, 0, 0])) =
     Inl (range_error
        (''uw: FeVariable derivative interpolation at location (x) does not appear to be valid.''
         @ [CHR 0x0A] @ ''Location is probably outside local domain.'')) \<and>
   GradFeVariableFn_getFunction ''uw: '' example_show_double example_fevar default_env
     example_vertex =
     (Inr (Grad_closure_MeshCoordinate example_fevar Tensor 0), allocated_env) \<and>
   fst (Grad_closure_MeshCoordinate example_fevar Tensor 0 allocated_env
          (example_vertex\<lparr>as_MeshCoordinate := Some \<lparr>mc_object = 300, mc_index = 3\<rparr>\<rparr>)) =
     Inr (new_IO_double Tensor (replicate 16 10)) \<and>
   GradFeVariableFn_getFunction ''uw: '' example_show_double example_fevar default_env
     example_local_coordinate =
     (Inr (Grad_closure_FEMCoordinate example_fevar Tensor 0), allocated_env) \<and>
   fst (Grad_closure_FEMCoordinate example_fevar Tensor 0 allocated_env
          (example_local_coordinate\<lparr>as_FEMCoordinate :=
             Some \<lparr>fem_mesh = 300, fem_index = 6, fem_localCoord = replicate 16 0\<rparr>\<rparr>)) =
     Inr (new_IO_double Tensor (replicate 16 6))"
proof -
  have offsets: "unat (8 * (1 :: 32 word)) = 8" "unat (8 * ((1 :: 32 word) + 1)) = 16"
    by simp_all
  have alloc: "make_shared_IO_double (fieldComponentCount example_fevar * dim example_fevar)
      default_env = (0, allocated_env)"
    by (simp add: make_shared_IO_double_def example_fevar_def default_env_def allocated_env_def
        sizeof_double_def)
  have dim2: "dim example_fevar = 2"
    by (simp add: example_fevar_def)
  have a1: "At_getFunction ''uw: '' None 1 default_env example_integers =
     (Inl (invalid_argument
        ''uw: Argument function is expected to return 'double' type object.''), default_env)"
    using validation_in_getFunction_only [where fn = None and s = default_env
      and func' = identity_func and ?s1.0 = default_env and ?s2.0 = default_env
      and hdr = "''uw: ''" and k = 1 and fevar = example_fevar and g = default_env
      and ?output = 0 and ?g1.0 = allocated_env and show_double = example_show_double
      and t = Tensor
      and sample_input = example_integers and funcio = example_integers,
      THEN conjunct1]
    by (simp add: identity_func_def example_integers_def)
  have a2: "At_getFunction ''uw: '' None 1 default_env example_vector =
     (Inr (At_closure identity_func 8 16), default_env)"
    using validation_in_getFunction_only [where fn = None and s = default_env
      and func' = identity_func and ?s1.0 = default_env and ?s2.0 = default_env
      and hdr = "''uw: ''" and k = 1 and fevar = example_fevar and g = default_env
      and ?output = 0 and ?g1.0 = allocated_env and show_double = example_show_double
      and t = Tensor
      and sample_input = example_vector and funcio = example_vector,
      THEN conjunct1]
    by (simp add: identity_func_def example_vector_def new_IO_double_def size_io_def
        sizeof_double_def)
  have a3: "At_closure identity_func 8 16 default_env example_integers =
     (Inr (new_IO_double Scalar [3, 0, 0, 0, 4, 0, 0, 0]), default_env)"
    using validation_in_getFunction_only [where fn = None and s = default_env
      and func' = identity_func and ?s1.0 = default_env and ?s2.0 = default_env
      and hdr = "''uw: ''" and k = 1 and fevar = example_fevar and g = default_env
      and ?output = 0 and ?g1.0 = allocated_env and show_double = example_show_double
      and t = Tensor,
      THEN conjunct2, THEN conjunct1, THEN spec, THEN spec, of default_env example_integers]
    by (simp add: offsets identity_func_def example_integers_def)
  have a4: "At_closure identity_func 8 16 default_env
      (new_IO_double Scalar [5, 0, 0, 0, 0, 0, 0, 0]) = (Inl undefined_behaviour, default_env)"
    using validation_in_getFunction_only [where fn = None and s = default_env
      and func' = identity_func and ?s1.0 = default_env and ?s2.0 = default_env
      and hdr = "''uw: ''" and k = 1 and fevar = example_fevar and g = default_env
      and ?output = 0 and ?g1.0 = allocated_env and show_double = example_show_double
      and t = Tensor,
      THEN conjunct2, THEN conjunct1, THEN spec, THEN spec,
      of default_env "new_IO_double Scalar [5, 0, 0, 0, 0, 0, 0, 0]"]
    by (simp add: offsets identity_func_def new_IO_double_def)
  have g1: "GradFeVariableFn_getFunction ''uw: '' example_show_double example_fevar default_env
     example_vector =
     (Inl (runtime_error
        ''uw: Function input dimensionality (3) does not appear to match mesh variable dimensionality (2).''),
      default_env)"
    using validation_in_getFunction_only [where fn = None and s = default_env
      and func' = identity_func and ?s1.0 = default_env and ?s2.0 = default_env
      and hdr = "''uw: ''" and k = 1 and fevar = example_fevar and g = default_env
      and ?output = 0 and ?g1.0 = allocated_env and show_double = example_show_double
      and t = Tensor
      and grad_sample = example_vector,
      THEN conjunct2, THEN conjunct2, THEN conjunct1, THEN mp, OF alloc]
    by (simp add: dim2 example_vector_def new_IO_double_def on_parent_mesh_def
        on_identical_mesh_def size_io_def sizeof_double_def dimensionality_message_def
        string_of_nat_digit digit_char_def)
  have g2: "GradFeVariableFn_getFunction ''uw: '' example_show_double example_fevar default_env
     example_point =
     (Inr (Grad_closure_global ''uw: '' example_show_double example_fevar Tensor 0),
      allocated_env)"
    using validation_in_getFunction_only [where fn = None and s = default_env
      and func' = identity_func and ?s1.0 = default_env and ?s2.0 = default_env
      and hdr = "''uw: ''" and k = 1 and fevar = example_fevar and g = default_env
      and ?output = 0 and ?g1.0 = allocated_env and show_double = example_show_double
      and t = Tensor
      and grad_sample = example_point,
      THEN conjunct2, THEN conjunct2, THEN conjunct1, THEN mp, OF alloc]
    by (simp add: dim2 example_point_def new_IO_double_def on_parent_mesh_def
        on_identical_mesh_def size_io_def sizeof_double_def)
  have g3: "fst (Grad_closure_global ''uw: '' example_show_double example_fevar Tensor 0
      allocated_env (new_IO_double Vector (replicate 24 0))) =
     Inr (new_IO_double Tensor (replicate 16 7))"
    using validation_in_getFunction_only [where fn = None and s = default_env
      and func' = identity_func and ?s1.0 = default_env and ?s2.0 = default_env
      and hdr = "''uw: ''" and k = 1 and fevar = example_fevar and g = default_env
      and ?output = 0 and ?g1.0 = allocated_env and show_double = example_show_double
      and t = Tensor,
      THEN conjunct2, THEN conjunct2, THEN conjunct2, THEN conjunct2, THEN conjunct2,
      THEN conjunct1, THEN spec, THEN spec,
      of "new_IO_double Vector (replicate 24 0)" allocated_env]
    by (simp add: example_fevar_def new_IO_double_def size_io_def sizeof_double_def)
  have g4: "fst (Grad_closure_global ''uw: '' example_show_double example_fevar Tensor 0
      allocated_env (new_IO_double Scalar [5, 0, 0, 0, 0, 0, 0, 0])) =
     Inl (range_error
        (''uw: FeVariable derivative interpolation at location (x) does not appear to be valid.''
         @ [CHR 0x0A] @ ''Location is probably outside local domain.''))"
    using validation_in_getFunction_only [where fn = None and s = default_env
      and func' = identity_func and ?s1.0 = default_env and ?s2.0 = default_env
      and hdr = "''uw: ''" and k = 1 and fevar = example_fevar and g = default_env
      and ?output = 0 and ?g1.0 = allocated_env and show_double = example_show_double
      and t = Tensor,
      THEN conjunct2, THEN conjunct2, THEN conjunct2, THEN conjunct2, THEN conjunct2,
      THEN conjunct1, THEN spec, THEN spec,
      of "new_IO_double Scalar [5, 0, 0, 0, 0, 0, 0, 0]" allocated_env]
    by (simp add: example_fevar_def new_IO_double_def size_io_def sizeof_double_def
        location_message_def at_io_def example_show_double_def)
  have g5: "GradFeVariableFn_getFunction ''uw: '' example_show_double example_fevar default_env
     example_vertex =
     (Inr (Grad_closure_MeshCoordinate example_fevar Tensor 0), allocated_env)"
    using validation_in_getFunction_only [where fn = None and s = default_env
      and func' = identity_func and ?s1.0 = default_env and ?s2.0 = default_env
      and hdr = "''uw: ''" and k = 1 and fevar = example_fevar and g = default_env
      and ?output = 0 and ?g1.0 = allocated_env and show_double = example_show_double
      and t = Tensor
      and grad_sample = example_vertex,
      THEN conjunct2, THEN conjunct2, THEN conjunct1, THEN mp, OF alloc]
    by (simp add: dim2 example_vertex_def on_parent_mesh_def on_identical_mesh_def
        example_fevar_def)
  have g6: "fst (Grad_closure_MeshCoordinate example_fevar Tensor 0 allocated_env
          (example_vertex\<lparr>as_MeshCoordinate := Some \<lparr>mc_object = 300, mc_index = 3\<rparr>\<rparr>)) =
     Inr (new_IO_double Tensor (replicate 16 10))"
    using validation_in_getFunction_only [where fn = None and s = default_env
      and func' = identity_func and ?s1.0 = default_env and ?s2.0 = default_env
      and hdr = "''uw: ''" and k = 1 and fevar = example_fevar and g = default_env
      and ?output = 0 and ?g1.0 = allocated_env and show_double = example_show_double
      and t = Tensor,
      THEN conjunct2, THEN conjunct2, THEN conjunct2, THEN conjunct2, THEN conjunct1,
      THEN spec, THEN spec, THEN spec,
      of "example_vertex\<lparr>as_MeshCoordinate :=
        Some \<lparr>mc_object = 300, mc_index = 3\<rparr>\<rparr>" "\<lparr>mc_object = 300, mc_index = 3\<rparr>"
        allocated_env]
    by (simp add: example_fevar_def)
  have g7: "GradFeVariableFn_getFunction ''uw: '' example_show_double example_fevar default_env
     example_local_coordinate =
     (Inr (Grad_closure_FEMCoordinate example_fevar Tensor 0), allocated_env)"
    using validation_in_getFunction_only [where fn = None and s = default_env
      and func' = identity_func and ?s1.0 = default_env and ?s2.0 = default_env
      and hdr = "''uw: ''" and k = 1 and fevar = example_fevar and g = default_env
      and ?output = 0 and ?g1.0 = allocated_env and show_double = example_show_double
      and t = Tensor
      and grad_sample = example_local_coordinate,
      THEN conjunct2, THEN conjunct2, THEN conjunct1, THEN mp, OF alloc]
    by (simp add: dim2 example_local_coordinate_def on_parent_mesh_def example_fevar_def)
  have g8: "fst (Grad_closure_FEMCoordinate example_fevar Tensor 0 allocated_env
          (example_local_coordinate\<lparr>as_FEMCoordinate :=
             Some \<lparr>fem_mesh = 300, fem_index = 6, fem_localCoord = replicate 16 0\<rparr>\<rparr>)) =
     Inr (new_IO_double Tensor (replicate 16 6))"
    using validation_in_getFunction_only [where fn = None and s = default_env
      and func' = identity_func and ?s1.0 = default_env and ?s2.0 = default_env
      and hdr = "''uw: ''" and k = 1 and fevar = example_fevar and g = default_env
      and ?output = 0 and ?g1.0 = allocated_env and show_double = example_show_double
      and t = Tensor,
      THEN conjunct2, THEN conjunct2, THEN conjunct2, THEN conjunct1,
      THEN spec, THEN spec, THEN spec,
      of "example_local_coordinate\<lparr>as_FEMCoordinate :=
             Some \<lparr>fem_mesh = 300, fem_index = 6, fem_localCoord = replicate 16 0\<rparr>\<rparr>"
        "\<lparr>fem_mesh = 300, fem_index = 6, fem_localCoord = replicate 16 0\<rparr>" allocated_env]
    by (simp add: example_fevar_def)
  from a1 a2 a3 a4 g1 g2 g3 g4 g5 g6 g7 g8 show ?thesis
    by (intro conjI)
qed

section \<open>Properties of the solver configuration\<close>

text \<open>
  C8, against the model of \<^verbatim>\<open>set_inner_method\<close> taken from the spec. A name that is
  not one of \<open>mg\<close>, \<open>mumps\<close>, \<open>superludist\<close>, \<open>superlu\<close> and \<open>lu\<close> is an error, and so is
  \<open>lu\<close> or \<open>superlu\<close> in a run of more than one process. In both cases the error is the
  result of the configuration, and a session that configures and then solves ends with
  that error: no solve is attempted. Every other request sets the inner method.
\<close>

theorem set_inner_method_errors:
  "(solve_type \<notin> set [''mg'', ''mumps'', ''superludist'', ''superlu'', ''lu''] \<longrightarrow>
      set_inner_method nProcs solve_type solver = Inl (invalid_method solve_type) \<and>
      configure_then_solve nProcs solve_type solver = Inl (invalid_method solve_type)) \<and>
   ((solve_type = ''lu'' \<or> solve_type = ''superlu'') \<and> 1 < nProcs \<longrightarrow>
      set_inner_method nProcs solve_type solver = Inl (serial_only_method solve_type) \<and>
      configure_then_solve nProcs solve_type solver = Inl (serial_only_method solve_type)) \<and>
   (solve_type \<in> set [''mg'', ''mumps'', ''superludist'', ''superlu'', ''lu''] \<and>
    \<not> ((solve_type = ''lu'' \<or> solve_type = ''superlu'') \<and> 1 < nProcs) \<longrightarrow>
      set_inner_method nProcs solve_type solver = Inr (solver\<lparr>inner_method := solve_type\<rparr>))"
  by (auto simp: set_inner_method_def configure_then_solve_def recognised_inner_methods_def
      serial_only_def)

text \<open>
  Three instances in a run of four processes: an unknown name, \<open>lu\<close>, and \<open>mumps\<close>.
\<close>

theorem set_inner_method_errors_witness:
  "configure_then_solve 4 ''cholesky'' \<lparr>inner_method = ''mg'', solves_attempted = 0\<rparr> =
     Inl (invalid_method ''cholesky'') \<and>
   configure_then_solve 4 ''lu'' \<lparr>inner_method = ''mg'', solves_attempted = 0\<rparr> =
     Inl (serial_only_method ''lu'') \<and>
   set_inner_method 4 ''mumps'' \<lparr>inner_method = ''mg'', solves_attempted = 0\<rparr> =
     Inr \<lparr>inner_method = ''mumps'', solves_attempted = 0\<rparr>"
  using
    set_inner_method_errors [of "''cholesky''" 4 "\<lparr>inner_method = ''mg'', solves_attempted = 0\<rparr>"]
    set_inner_method_errors [of "''lu''" 4 "\<lparr>inner_method = ''mg'', solves_attempted = 0\<rparr>"]
    set_inner_method_errors [of "''mumps''" 4 "\<lparr>inner_method = ''mg'', solves_attempted = 0\<rparr>"]
  by simp

end
